theory Spec2Isabelle
  imports Main "HOL-Library.AList"
begin

section \<open>Universal Clipboard: the enhanced server's synchronisation engine\<close>

text \<open>
  A shallow embedding of \<^verbatim>\<open>src/src/enhanced-server.js\<close> (class
  \<^verbatim>\<open>EnhancedClipboardServer\<close>): the clipboard engine (\<^verbatim>\<open>updateClipboard\<close>, the
  queue and its timer, the filter, the history) and the socket and HTTP handlers
  that feed it or send its last known value. Each becomes a function from the
  server object's mutable fields (record \<open>server\<close>) to the updated fields and
  the list of effects performed, in program order: socket emissions, writes to
  the operating system's clipboard, console lines, timers armed and HTTP
  responses.

  Scope of the model.
  \<^item> A \<open>char\<close> stands for one UTF-16 code unit below 256, so \<open>length\<close> is the
    JavaScript \<^verbatim>\<open>.length\<close> of such a string.
  \<^item> Clipboard content is a JavaScript value that is a string, \<^verbatim>\<open>undefined\<close> or
    \<^verbatim>\<open>null\<close>. (A truthy value that is no string makes \<^verbatim>\<open>crypto\<close>'s
    \<^verbatim>\<open>update\<close> throw inside \<^verbatim>\<open>generateHash\<close>, before any field is assigned.)
  \<^item> \<open>updateClipboard\<close>, \<open>syncQueueTimeout\<close> and the handlers are those of a
    server constructed with \<^verbatim>\<open>terminalOnly = false\<close>, the default: there
    \<^verbatim>\<open>updateClipboard\<close> never reaches its \<^verbatim>\<open>await\<close> and runs to completion within
    the call. With \<^verbatim>\<open>terminalOnly = true\<close> the accept path suspends at
    \<^verbatim>\<open>await this.terminalClipboard.write(content)\<close>; \<open>updateClipboardTerminal\<close> is
    the function up to that point and \<open>resumeAfterWrite\<close> the rest of it.
  \<^item> \<^verbatim>\<open>Date.now()\<close> is read once per handler run and passed in as \<open>now\<close>
    (milliseconds, an integer).
  \<^item> The MD5 digest of \<^verbatim>\<open>crypto\<close>, the outcome of \<^verbatim>\<open>clipboardy.writeSync\<close> and
    the constructor's constants are parameters.
\<close>

subsection \<open>Values and constants\<close>

datatype jsval = Undefined | Null | Str string

text \<open>JavaScript truthiness, \<^verbatim>\<open>!!v\<close>, on these values.\<close>

fun truthy :: "jsval \<Rightarrow> bool" where
  "truthy (Str s) = (s \<noteq> [])"
| "truthy Undefined = False"
| "truthy Null = False"

text \<open>\<^verbatim>\<open>content || ''\<close>\<close>

fun orEmpty :: "jsval \<Rightarrow> string" where
  "orEmpty (Str s) = s"
| "orEmpty Undefined = []"
| "orEmpty Null = []"

text \<open>
  The fields the constructor sets once and nothing assigns afterwards, together
  with the digest function behind \<^verbatim>\<open>crypto.createHash('md5')\<close>. Each sensitive
  pattern is represented by its \<^verbatim>\<open>test\<close> method.
\<close>

record config =
  md5hex :: "string \<Rightarrow> string"
  maxHistorySize :: nat
  minSyncInterval :: int
  maxContentLength :: nat
  sensitivePatterns :: "(string \<Rightarrow> bool) list"
  headless :: bool

subsection \<open>Regular expressions of the sensitive patterns\<close>

text \<open>
  The seven patterns only use character classes, bounded or unbounded repetition
  of a class, and the word boundary \<^verbatim>\<open>\b\<close>. \<open>Rep P lo hi\<close> is the class \<open>P\<close>
  repeated at least \<open>lo\<close> and (when \<open>hi = Some h\<close>) at most \<open>h\<close> times.
\<close>

datatype atom = Rep "char \<Rightarrow> bool" nat "nat option" | WordB

definition codeUnit :: "char \<Rightarrow> nat" where
  "codeUnit c = of_char c"

definition isDigit :: "char \<Rightarrow> bool" where
  "isDigit c = (48 \<le> codeUnit c \<and> codeUnit c \<le> 57)"

definition isUpper :: "char \<Rightarrow> bool" where
  "isUpper c = (65 \<le> codeUnit c \<and> codeUnit c \<le> 90)"

definition isLower :: "char \<Rightarrow> bool" where
  "isLower c = (97 \<le> codeUnit c \<and> codeUnit c \<le> 122)"

text \<open>\<^verbatim>\<open>\w\<close>, the characters between which \<^verbatim>\<open>\b\<close> finds no boundary.\<close>

definition isWordChar :: "char \<Rightarrow> bool" where
  "isWordChar c = (isUpper c \<or> isLower c \<or> isDigit c \<or> c = CHR ''_'')"

text \<open>\<^verbatim>\<open>\s\<close> below code unit 256: tab, LF, VT, FF, CR, space, no-break space.\<close>

definition isSpace :: "char \<Rightarrow> bool" where
  "isSpace c = ((9 \<le> codeUnit c \<and> codeUnit c \<le> 13) \<or> codeUnit c = 32 \<or> codeUnit c = 160)"

text \<open>A lower-case pattern letter under the \<^verbatim>\<open>i\<close> flag.\<close>

definition ci :: "char \<Rightarrow> char \<Rightarrow> bool" where
  "ci p c = (c = p \<or> (isLower p \<and> codeUnit c + 32 = codeUnit p))"

definition lit_ci :: "string \<Rightarrow> atom list" where
  "lit_ci w = map (\<lambda>p. Rep (ci p) 1 (Some 1)) w"

definition once :: "(char \<Rightarrow> bool) \<Rightarrow> atom" where
  "once P = Rep P 1 (Some 1)"

definition wordBoundary :: "char option \<Rightarrow> string \<Rightarrow> bool" where
  "wordBoundary prev s =
     ((case prev of None \<Rightarrow> False | Some c \<Rightarrow> isWordChar c)
      \<noteq> (case s of [] \<Rightarrow> False | c # _ \<Rightarrow> isWordChar c))"

text \<open>
  \<open>matchHere as prev s\<close>: the atoms match a prefix of \<open>s\<close>, where \<open>prev\<close> is the
  character just before \<open>s\<close> in the subject string. Every number of repetitions
  is tried, as the backtracking matcher does.
\<close>

fun matchHere :: "atom list \<Rightarrow> char option \<Rightarrow> string \<Rightarrow> bool" where
  "matchHere [] prev s = True"
| "matchHere (WordB # as) prev s =
     (if wordBoundary prev s then matchHere as prev s else False)"
| "matchHere (Rep P lo hi # as) prev [] =
     (if lo = 0 then matchHere as prev [] else False)"
| "matchHere (Rep P lo hi # as) prev (c # cs) =
     (if lo = 0 \<and> matchHere as prev (c # cs) then True
      else if hi \<noteq> Some 0 \<and> P c
      then matchHere (Rep P (lo - 1) (map_option (\<lambda>h. h - 1) hi) # as) (Some c) cs
      else False)"

text \<open>\<^verbatim>\<open>RegExp.prototype.test\<close> without flags \<^verbatim>\<open>g\<close>, \<^verbatim>\<open>y\<close>: a match at some position.\<close>

fun testFrom :: "atom list \<Rightarrow> char option \<Rightarrow> string \<Rightarrow> bool" where
  "testFrom as prev [] = matchHere as prev []"
| "testFrom as prev (c # cs) =
     (if matchHere as prev (c # cs) then True else testFrom as (Some c) cs)"

definition regex_test :: "atom list \<Rightarrow> string \<Rightarrow> bool" where
  "regex_test as s = testFrom as None s"

text \<open>\<^verbatim>\<open>/password/i\<close>, \<^verbatim>\<open>/secret/i\<close>, \<^verbatim>\<open>/token/i\<close>\<close>

definition rx_password :: "atom list" where
  "rx_password = lit_ci ''password''"

definition rx_secret :: "atom list" where
  "rx_secret = lit_ci ''secret''"

definition rx_token :: "atom list" where
  "rx_token = lit_ci ''token''"

text \<open>\<^verbatim>\<open>/key\s*[:=]/i\<close>\<close>

definition rx_key_assign :: "atom list" where
  "rx_key_assign =
     lit_ci ''key'' @ [Rep isSpace 0 None, once (\<lambda>c. c = CHR '':'' \<or> c = CHR ''='')]"

text \<open>\<^verbatim>\<open>/api[_-]?key/i\<close>\<close>

definition rx_api_key :: "atom list" where
  "rx_api_key =
     lit_ci ''api'' @ [Rep (\<lambda>c. c = CHR ''_'' \<or> c = CHR ''-'') 0 (Some 1)] @ lit_ci ''key''"

text \<open>\<^verbatim>\<open>/[0-9]{16}/\<close>\<close>

definition rx_card :: "atom list" where
  "rx_card = [Rep isDigit 16 (Some 16)]"

text \<open>
  \<^verbatim>\<open>/\b[A-Za-z0-9._%+-]+@[A-Za-z0-9.-]+\.[A-Z|a-z]{2,}\b/\<close>; in the last class
  the bar is a literal character.
\<close>

definition rx_email :: "atom list" where
  "rx_email =
     [WordB,
      Rep (\<lambda>c. isUpper c \<or> isLower c \<or> isDigit c \<or> c \<in> set ''._%+-'') 1 None,
      once (\<lambda>c. c = CHR ''@''),
      Rep (\<lambda>c. isUpper c \<or> isLower c \<or> isDigit c \<or> c \<in> set ''.-'') 1 None,
      once (\<lambda>c. c = CHR ''.''),
      Rep (\<lambda>c. isUpper c \<or> c = CHR ''|'' \<or> isLower c) 2 None,
      WordB]"

definition default_patterns :: "(string \<Rightarrow> bool) list" where
  "default_patterns =
     map regex_test
       [rx_password, rx_secret, rx_token, rx_key_assign, rx_api_key, rx_card, rx_email]"

subsection \<open>The server object\<close>

record device =
  dev_id :: string
  dev_name :: string
  dev_type :: string
  userAgent :: string
  connectedAt :: int
  autoSync :: bool
  capabilities :: string

text \<open>
  The argument of \<^verbatim>\<open>register-device\<close>; \<open>None\<close> is an absent property. For
  \<open>info_autoSync\<close> only \<^verbatim>\<open>false\<close> differs from absence.
\<close>

record deviceInfo =
  info_name :: "string option"
  info_type :: "string option"
  info_userAgent :: "string option"
  info_autoSync :: "bool option"
  info_capabilities :: "string option"

record historyItem =
  hi_content :: string
  hi_timestamp :: int
  hi_hash :: string
  hi_preview :: string
  hi_size :: nat

text \<open>An entry of \<^verbatim>\<open>syncQueue\<close>.\<close>

record queued =
  q_content :: jsval
  q_sourceId :: string
  q_autoWrite :: bool
  q_timestamp :: int
  q_hash :: string

text \<open>
  The payload of a \<^verbatim>\<open>clipboard-update\<close> emission. \<open>u_force\<close> is \<open>True\<close> where the
  source writes \<^verbatim>\<open>force: true\<close> and \<open>False\<close> where it leaves the property out.
\<close>

record updateData =
  u_content :: jsval
  u_from :: string
  u_timestamp :: int
  u_hash :: string
  u_autoWrite :: bool
  u_force :: bool

datatype event =
    DeviceList "device list"
  | ClipboardHistory "historyItem list"
  | ClipboardUpdate updateData

text \<open>\<^verbatim>\<open>io.emit\<close> reaches every connected socket; \<^verbatim>\<open>socket.emit\<close> and
  \<^verbatim>\<open>io.to(id).emit\<close> reach the socket \<open>id\<close>.\<close>

datatype target = AllSockets | Socket string

datatype logline =
    LogAutoSyncDisabled
  | LogConflict
  | LogSensitive
  | LogBlocked
  | LogWritten
  | LogWriteFailed
  | LogSynced nat nat
  | LogRegistered string string bool
  | LogUpdateFrom string string
  | LogToggle string bool
  | LogDisconnected string
  | LogLocalChange string
  | LogTerminalMethod
  | LogTerminalWarn
  | LogTerminalWritten

datatype effect =
    Emit target event
  | OsClipboardWrite string
  | Console logline
  | SetTimeout int
  | Respond nat
  | FallbackFileWrite string

record server =
  connectedDevices :: "(string \<times> device) list"
  clipboardHistory :: "historyItem list"
  lastClipboard :: jsval
  lastClipboardHash :: string
  syncQueue :: "queued list"
  processing :: bool
  conflictResolver :: "string \<rightharpoonup> int"
  lastSyncTime :: int
  pollingInterval :: int
  autoSyncEnabled :: bool
  totalSyncs :: nat

text \<open>The fields as the constructor leaves them (no \<^verbatim>\<open>options.pollingInterval\<close>).\<close>

definition new_server :: server where
  "new_server =
     \<lparr>connectedDevices = [], clipboardHistory = [], lastClipboard = Str [],
      lastClipboardHash = [], syncQueue = [], processing = False,
      conflictResolver = Map.empty, lastSyncTime = 0, pollingInterval = 100,
      autoSyncEnabled = True, totalSyncs = 0\<rparr>"

definition enhanced_config :: "(string \<Rightarrow> string) \<Rightarrow> bool \<Rightarrow> config" where
  "enhanced_config digest hl =
     \<lparr>md5hex = digest, maxHistorySize = 10, minSyncInterval = 50,
      maxContentLength = 50000, sensitivePatterns = default_patterns, headless = hl\<rparr>"

subsection \<open>generateHash, isContentFiltered, addToHistory\<close>

definition generateHash :: "config \<Rightarrow> jsval \<Rightarrow> string" where
  "generateHash K content = md5hex K (orEmpty content)"

text \<open>
  \<^verbatim>\<open>isContentFiltered\<close> returns a boolean and prints one console line when a
  pattern matches; \<open>isContentFiltered_console\<close> is that line.
\<close>

fun isContentFiltered :: "config \<Rightarrow> jsval \<Rightarrow> bool" where
  "isContentFiltered K (Str s) =
     (if s = [] then True
      else if length s > maxContentLength K then True
      else list_ex (\<lambda>pattern. pattern s) (sensitivePatterns K))"
| "isContentFiltered K Undefined = True"
| "isContentFiltered K Null = True"

fun isContentFiltered_console :: "config \<Rightarrow> jsval \<Rightarrow> effect list" where
  "isContentFiltered_console K (Str s) =
     (if s \<noteq> [] \<and> \<not> length s > maxContentLength K
         \<and> list_ex (\<lambda>pattern. pattern s) (sensitivePatterns K)
      then [Console LogSensitive] else [])"
| "isContentFiltered_console K Undefined = []"
| "isContentFiltered_console K Null = []"

text \<open>\<^verbatim>\<open>Array.prototype.findIndex\<close>; \<open>None\<close> is the result \<open>-1\<close>.\<close>

fun findIndex :: "('a \<Rightarrow> bool) \<Rightarrow> 'a list \<Rightarrow> nat option" where
  "findIndex P [] = None"
| "findIndex P (x # xs) = (if P x then Some 0 else map_option Suc (findIndex P xs))"

definition newHistoryItem :: "config \<Rightarrow> int \<Rightarrow> string \<Rightarrow> historyItem" where
  "newHistoryItem K now c =
     \<lparr>hi_content = take 1000 c,
      hi_timestamp = now,
      hi_hash = generateHash K (Str c),
      hi_preview = map (\<lambda>x. if x = CHR 0x0A then CHR '' '' else x) (take 100 c),
      hi_size = length c\<rparr>"

definition addToHistory :: "config \<Rightarrow> server \<Rightarrow> int \<Rightarrow> jsval \<Rightarrow> server \<times> effect list" where
  "addToHistory K s now content =
     (if \<not> truthy content then (s, [])
      else
        let hash = generateHash K content;
            existingIndex = findIndex (\<lambda>item. hi_hash item = hash) (clipboardHistory s)
        in if existingIndex = Some 0 then (s, [])
           else
             let h1 = (case existingIndex of
                         Some i \<Rightarrow>
                           (clipboardHistory s ! i)
                             # (take i (clipboardHistory s) @ drop (Suc i) (clipboardHistory s))
                       | None \<Rightarrow> newHistoryItem K now (orEmpty content) # clipboardHistory s);
                 h2 = (if length h1 > maxHistorySize K then take (maxHistorySize K) h1 else h1)
             in (s\<lparr>clipboardHistory := h2\<rparr>, [Emit AllSockets (ClipboardHistory h2)]))"

subsection \<open>updateClipboard and the queue\<close>

text \<open>
  \<^verbatim>\<open>processSyncQueue\<close> arms one timer unless one is pending; the timer's callback
  is \<open>syncQueueTimeout\<close> below.
\<close>

definition processSyncQueue :: "config \<Rightarrow> server \<Rightarrow> server \<times> effect list" where
  "processSyncQueue K s =
     (if processing s \<or> syncQueue s = [] then (s, [])
      else (s\<lparr>processing := True\<rparr>, [SetTimeout (minSyncInterval K)]))"

definition getAutoSyncDeviceCount :: "server \<Rightarrow> nat" where
  "getAutoSyncDeviceCount s = length (filter autoSync (map snd (connectedDevices s)))"

text \<open>
  The source returns \<^verbatim>\<open>undefined\<close> on every path; the model also reports which
  \<^verbatim>\<open>return\<close> was taken.
\<close>

datatype outcome =
    SkippedAutoSyncOff
  | SkippedSameHash
  | Queued
  | SkippedConflict
  | Blocked
  | Synced

text \<open>The \<^verbatim>\<open>forEach\<close> over \<^verbatim>\<open>connectedDevices\<close> at the end of \<^verbatim>\<open>updateClipboard\<close>.\<close>

fun broadcast :: "updateData \<Rightarrow> string \<Rightarrow> (string \<times> device) list \<Rightarrow> effect list" where
  "broadcast upd sourceId [] = []"
| "broadcast upd sourceId ((deviceId, dev) # rest) =
     (if deviceId \<noteq> sourceId \<and> autoSync dev
      then Emit (Socket deviceId) (ClipboardUpdate upd) # broadcast upd sourceId rest
      else broadcast upd sourceId rest)"

text \<open>
  The \<^verbatim>\<open>try\<close>/\<^verbatim>\<open>catch\<close> around the write, in its \<^verbatim>\<open>else\<close> branch
  (\<^verbatim>\<open>clipboardy.writeSync\<close>, taken when \<^verbatim>\<open>terminalOnly\<close> is false); \<open>writeFails\<close> says
  whether the call throws. The other branch is \<open>terminalTryCatch\<close> below.
\<close>

definition writeSystemClipboard :: "config \<Rightarrow> bool \<Rightarrow> string \<Rightarrow> effect list" where
  "writeSystemClipboard K writeFails c =
     (if writeFails then (if \<not> headless K then [Console LogWriteFailed] else [])
      else OsClipboardWrite c # (if \<not> headless K then [Console LogWritten] else []))"

definition updateClipboard ::
  "config \<Rightarrow> server \<Rightarrow> int \<Rightarrow> bool \<Rightarrow> jsval \<Rightarrow> string \<Rightarrow> bool
     \<Rightarrow> server \<times> outcome \<times> effect list" where
  "updateClipboard K s now writeFails content sourceId autoWrite =
     (if \<not> autoSyncEnabled s \<and> sourceId \<noteq> ''local''
      then (s, SkippedAutoSyncOff, [Console LogAutoSyncDisabled])
      else
        let contentHash = generateHash K content
        in if contentHash = lastClipboardHash s then (s, SkippedSameHash, [])
           else if now - lastSyncTime s < minSyncInterval K then
             (let (s', effs) =
                    processSyncQueue K
                      (s\<lparr>syncQueue := syncQueue s @
                          [\<lparr>q_content = content, q_sourceId = sourceId,
                            q_autoWrite = autoWrite, q_timestamp = now,
                            q_hash = contentHash\<rparr>]\<rparr>)
              in (s', Queued, effs))
           else if (case conflictResolver s contentHash of
                      Some existingTime \<Rightarrow> now - existingTime < 1000
                    | None \<Rightarrow> False)
           then (s, SkippedConflict, [Console LogConflict])
           else
             let s1 = s\<lparr>conflictResolver := (conflictResolver s)(contentHash \<mapsto> now),
                        lastSyncTime := now,
                        lastClipboard := content,
                        lastClipboardHash := contentHash\<rparr>
             in if isContentFiltered K content
                then (s1, Blocked, isContentFiltered_console K content @ [Console LogBlocked])
                else
                  let w = (if autoWrite \<and> sourceId \<noteq> ''local''
                           then writeSystemClipboard K writeFails (orEmpty content) else []);
                      (s2, h) = addToHistory K s1 now content;
                      b = broadcast
                            \<lparr>u_content = content, u_from = sourceId, u_timestamp = now,
                             u_hash = contentHash, u_autoWrite = True, u_force = False\<rparr>
                            sourceId (connectedDevices s2);
                      s3 = s2\<lparr>totalSyncs := totalSyncs s2 + 1\<rparr>
                  in (s3, Synced,
                      w @ h @ b @
                      (if \<not> headless K
                       then [Console (LogSynced (getAutoSyncDeviceCount s3)
                                        (length (orEmpty content)))]
                       else [])))"

text \<open>
  The callback that \<^verbatim>\<open>processSyncQueue\<close> passes to \<^verbatim>\<open>setTimeout\<close>:
  \<^verbatim>\<open>pop\<close> takes the last entry, the queue is emptied, and \<^verbatim>\<open>processing\<close> is
  reset after \<^verbatim>\<open>updateClipboard\<close> has run.
\<close>

definition syncQueueTimeout :: "config \<Rightarrow> server \<Rightarrow> int \<Rightarrow> bool \<Rightarrow> server \<times> effect list" where
  "syncQueueTimeout K s now writeFails =
     (if syncQueue s \<noteq> [] then
        (let latest = last (syncQueue s);
             (s', r, effs) =
                updateClipboard K (s\<lparr>syncQueue := []\<rparr>) now writeFails
                  (q_content latest) (q_sourceId latest) (q_autoWrite latest)
         in (s'\<lparr>processing := False\<rparr>, effs))
      else (s\<lparr>processing := False\<rparr>, []))"

subsection \<open>Terminal-only mode\<close>

text \<open>
  \<^verbatim>\<open>TerminalClipboard.write\<close> (\<^verbatim>\<open>terminal-clipboard.js\<close>). What the environment
  decides is given by \<open>terminalEnv\<close>: whether the method was detected already
  (if not, detection runs first and prints the method), whether the preferred
  method is the fallback file itself, whether the write by the preferred method
  fails, and whether the write to the fallback file fails. On a failure the
  function prints a warning, writes the fallback file unless that was the
  method, and throws. The result says whether it throws. (What a failing
  external command did before it failed is not part of the model.)
\<close>

record terminalEnv =
  detected :: bool
  methodIsFile :: bool
  primaryFails :: bool
  fallbackFails :: bool

definition terminalClipboardWrite :: "terminalEnv \<Rightarrow> string \<Rightarrow> bool \<times> effect list" where
  "terminalClipboardWrite env c =
     (let d = (if detected env then [] else [Console LogTerminalMethod])
      in if \<not> primaryFails env then (False, d @ [OsClipboardWrite c])
         else (True,
               d @ [Console LogTerminalWarn] @
               (if \<not> methodIsFile env \<and> \<not> fallbackFails env then [FallbackFileWrite c]
                else [])))"

text \<open>
  The \<^verbatim>\<open>try\<close>/\<^verbatim>\<open>catch\<close> around the write in its first branch,
  \<^verbatim>\<open>await this.terminalClipboard.write(content)\<close>.
\<close>

definition terminalTryCatch :: "config \<Rightarrow> terminalEnv \<Rightarrow> string \<Rightarrow> effect list" where
  "terminalTryCatch K env c =
     (let (throws, w) = terminalClipboardWrite env c
      in w @ (if throws then (if \<not> headless K then [Console LogWriteFailed] else [])
              else (if \<not> headless K then [Console LogTerminalWritten] else [])))"

text \<open>
  The locals of \<^verbatim>\<open>updateClipboard\<close> that its continuation after the \<^verbatim>\<open>await\<close>
  still uses.
\<close>

record pendingWrite =
  p_content :: jsval
  p_sourceId :: string
  p_now :: int
  p_hash :: string

datatype terminalOutcome = Suspended pendingWrite | Returned outcome

text \<open>
  \<^verbatim>\<open>updateClipboard\<close> with \<^verbatim>\<open>terminalOnly = true\<close>, as far as it runs within the
  call: to a \<^verbatim>\<open>return\<close>, to the end when no write is due, or to the \<^verbatim>\<open>await\<close>.
\<close>

definition updateClipboardTerminal ::
  "config \<Rightarrow> server \<Rightarrow> int \<Rightarrow> jsval \<Rightarrow> string \<Rightarrow> bool
     \<Rightarrow> server \<times> terminalOutcome \<times> effect list" where
  "updateClipboardTerminal K s now content sourceId autoWrite =
     (if \<not> autoSyncEnabled s \<and> sourceId \<noteq> ''local''
      then (s, Returned SkippedAutoSyncOff, [Console LogAutoSyncDisabled])
      else
        let contentHash = generateHash K content
        in if contentHash = lastClipboardHash s then (s, Returned SkippedSameHash, [])
           else if now - lastSyncTime s < minSyncInterval K then
             (let (s', effs) =
                    processSyncQueue K
                      (s\<lparr>syncQueue := syncQueue s @
                          [\<lparr>q_content = content, q_sourceId = sourceId,
                            q_autoWrite = autoWrite, q_timestamp = now,
                            q_hash = contentHash\<rparr>]\<rparr>)
              in (s', Returned Queued, effs))
           else if (case conflictResolver s contentHash of
                      Some existingTime \<Rightarrow> now - existingTime < 1000
                    | None \<Rightarrow> False)
           then (s, Returned SkippedConflict, [Console LogConflict])
           else
             let s1 = s\<lparr>conflictResolver := (conflictResolver s)(contentHash \<mapsto> now),
                        lastSyncTime := now,
                        lastClipboard := content,
                        lastClipboardHash := contentHash\<rparr>
             in if isContentFiltered K content
                then (s1, Returned Blocked,
                      isContentFiltered_console K content @ [Console LogBlocked])
                else if autoWrite \<and> sourceId \<noteq> ''local''
                then (s1,
                      Suspended \<lparr>p_content = content, p_sourceId = sourceId, p_now = now,
                                 p_hash = contentHash\<rparr>,
                      [])
                else
                  let (s2, h) = addToHistory K s1 now content;
                      b = broadcast
                            \<lparr>u_content = content, u_from = sourceId, u_timestamp = now,
                             u_hash = contentHash, u_autoWrite = True, u_force = False\<rparr>
                            sourceId (connectedDevices s2);
                      s3 = s2\<lparr>totalSyncs := totalSyncs s2 + 1\<rparr>
                  in (s3, Returned Synced,
                      h @ b @
                      (if \<not> headless K
                       then [Console (LogSynced (getAutoSyncDeviceCount s3)
                                        (length (orEmpty content)))]
                       else [])))"

text \<open>
  The continuation: the write has settled as \<open>env\<close> says, \<open>s\<close> is the server
  object at that moment (other handlers may have run since the call) and
  \<open>now\<close> the clock reading of \<^verbatim>\<open>addToHistory\<close>. The effects of the write come
  first in the list.
\<close>

definition resumeAfterWrite ::
  "config \<Rightarrow> server \<Rightarrow> int \<Rightarrow> terminalEnv \<Rightarrow> pendingWrite \<Rightarrow> server \<times> effect list" where
  "resumeAfterWrite K s now env p =
     (let w = terminalTryCatch K env (orEmpty (p_content p));
          (s2, h) = addToHistory K s now (p_content p);
          b = broadcast
                \<lparr>u_content = p_content p, u_from = p_sourceId p, u_timestamp = p_now p,
                 u_hash = p_hash p, u_autoWrite = True, u_force = False\<rparr>
                (p_sourceId p) (connectedDevices s2);
          s3 = s2\<lparr>totalSyncs := totalSyncs s2 + 1\<rparr>
      in (s3,
          w @ h @ b @
          (if \<not> headless K
           then [Console (LogSynced (getAutoSyncDeviceCount s3)
                            (length (orEmpty (p_content p))))]
           else [])))"

subsection \<open>Socket and HTTP handlers\<close>

text \<open>\<^verbatim>\<open>a || b\<close> on an optional string: absent and empty both give the default.\<close>

definition orDefault :: "string option \<Rightarrow> string \<Rightarrow> string" where
  "orDefault v d = (case v of None \<Rightarrow> d | Some x \<Rightarrow> if x = [] then d else x)"

text \<open>\<^verbatim>\<open>socket.on('register-device', ...)\<close> for the socket \<open>socketId\<close>.\<close>

definition registerDevice :: "server \<Rightarrow> int \<Rightarrow> string \<Rightarrow> deviceInfo \<Rightarrow> server \<times> effect list" where
  "registerDevice s now socketId info =
     (let dev = \<lparr>dev_id = socketId,
                 dev_name = orDefault (info_name info) (''Device '' @ take 6 socketId),
                 dev_type = orDefault (info_type info) ''unknown'',
                 userAgent = orDefault (info_userAgent info) ''unknown'',
                 connectedAt = now,
                 autoSync = (info_autoSync info \<noteq> Some False),
                 capabilities = (case info_capabilities info of None \<Rightarrow> ''{}'' | Some c \<Rightarrow> c)\<rparr>;
          s' = s\<lparr>connectedDevices := AList.update socketId dev (connectedDevices s)\<rparr>
      in (s',
          [Console (LogRegistered (dev_name dev) (dev_type dev) (autoSync dev)),
           Emit AllSockets (DeviceList (map snd (connectedDevices s'))),
           Emit AllSockets (ClipboardHistory (clipboardHistory s'))] @
          (if truthy (lastClipboard s')
           then [Emit (Socket socketId)
                   (ClipboardUpdate
                      \<lparr>u_content = lastClipboard s', u_from = ''server'', u_timestamp = now,
                       u_hash = lastClipboardHash s', u_autoWrite = True, u_force = False\<rparr>)]
           else [])))"

definition forceSyncToDevice :: "server \<Rightarrow> int \<Rightarrow> string \<Rightarrow> effect list" where
  "forceSyncToDevice s now deviceId =
     (if truthy (lastClipboard s)
      then [Emit (Socket deviceId)
              (ClipboardUpdate
                 \<lparr>u_content = lastClipboard s, u_from = ''server'', u_timestamp = now,
                  u_hash = lastClipboardHash s, u_autoWrite = True, u_force = True\<rparr>)]
      else [])"

text \<open>\<^verbatim>\<open>socket.on('toggle-auto-sync', ...)\<close>; \<open>enabled\<close> is the truthiness of the argument.\<close>

definition toggleAutoSync :: "server \<Rightarrow> string \<Rightarrow> bool \<Rightarrow> server \<times> effect list" where
  "toggleAutoSync s socketId enabled =
     (case map_of (connectedDevices s) socketId of
        Some dev \<Rightarrow>
          (s\<lparr>connectedDevices :=
               AList.update socketId (dev\<lparr>autoSync := enabled\<rparr>) (connectedDevices s)\<rparr>,
           [Console (LogToggle (dev_name dev) enabled)])
      | None \<Rightarrow> (s, []))"

definition disconnect :: "server \<Rightarrow> string \<Rightarrow> server \<times> effect list" where
  "disconnect s socketId =
     (let s' = s\<lparr>connectedDevices := AList.delete socketId (connectedDevices s)\<rparr>
      in (s', [Console (LogDisconnected socketId),
               Emit AllSockets (DeviceList (map snd (connectedDevices s')))]))"

text \<open>
  The object a device sends with \<^verbatim>\<open>clipboard-update\<close>. The handler reads
  \<^verbatim>\<open>content\<close> and \<^verbatim>\<open>autoWrite\<close>; every other property (the client sends
  \<^verbatim>\<open>timestamp\<close>, for one) is in \<open>msg_others\<close>, as name and JSON text.
\<close>

record message =
  msg_content :: jsval
  msg_autoWrite :: "bool option"
  msg_others :: "(string \<times> string) list"

datatype exn = TypeError

text \<open>
  \<^verbatim>\<open>socket.on('clipboard-update', ...)\<close>. \<^verbatim>\<open>data.content.substring\<close> throws when
  the content is no string.
\<close>

definition onClipboardUpdate ::
  "config \<Rightarrow> server \<Rightarrow> int \<Rightarrow> bool \<Rightarrow> string \<Rightarrow> message
     \<Rightarrow> exn + server \<times> outcome \<times> effect list" where
  "onClipboardUpdate K s now writeFails socketId data =
     (case msg_content data of
        Str c \<Rightarrow>
          (let (s', r, effs) =
                 updateClipboard K s now writeFails (Str c) socketId
                   (msg_autoWrite data \<noteq> Some False)
           in Inr (s', r, Console (LogUpdateFrom socketId (take 50 c)) # effs))
      | _ \<Rightarrow> Inl TypeError)"

text \<open>
  \<^verbatim>\<open>POST /api/clipboard\<close>; \<open>content\<close> is \<^verbatim>\<open>req.body.content\<close>, and \<open>None\<close> in the
  middle of the result means that \<^verbatim>\<open>updateClipboard\<close> was not called.
\<close>

definition apiPostClipboard ::
  "config \<Rightarrow> server \<Rightarrow> int \<Rightarrow> bool \<Rightarrow> jsval \<Rightarrow> server \<times> outcome option \<times> effect list" where
  "apiPostClipboard K s now writeFails content =
     (if content \<noteq> Undefined then
        (let (s', r, effs) = updateClipboard K s now writeFails content ''api'' True
         in (s', Some r, effs @ [Respond 200]))
      else (s, None, [Respond 400]))"

text \<open>\<^verbatim>\<open>POST /api/settings\<close>; restarting the monitor only replaces its interval timer.\<close>

definition apiPostSettings :: "server \<Rightarrow> bool option \<Rightarrow> int option \<Rightarrow> server \<times> effect list" where
  "apiPostSettings s autoSyncArg pollingArg =
     (let s1 = (case autoSyncArg of None \<Rightarrow> s | Some a \<Rightarrow> s\<lparr>autoSyncEnabled := a\<rparr>);
          s2 = (case pollingArg of
                  None \<Rightarrow> s1
                | Some p \<Rightarrow> if p \<ge> 50 then s1\<lparr>pollingInterval := p\<rparr> else s1)
      in (s2, [Respond 200]))"

text \<open>
  One tick of the monitor started by \<^verbatim>\<open>startClipboardMonitoring\<close>; \<open>readResult\<close> is
  what \<^verbatim>\<open>clipboardy.readSync\<close> returns, \<open>None\<close> when it throws.
\<close>

definition monitorTick ::
  "config \<Rightarrow> server \<Rightarrow> int \<Rightarrow> string option \<Rightarrow> server \<times> outcome option \<times> effect list" where
  "monitorTick K s now readResult =
     (case readResult of
        None \<Rightarrow> (s, None, [])
      | Some currentClipboard \<Rightarrow>
          if generateHash K (Str currentClipboard) \<noteq> lastClipboardHash s
             \<and> currentClipboard \<noteq> []
          then
            (let (s', r, effs) =
                   updateClipboard K s now False (Str currentClipboard) ''local'' False
             in (s', Some r,
                 (if \<not> headless K then [Console (LogLocalChange (take 30 currentClipboard))]
                  else []) @ effs))
          else (s, None, []))"

subsection \<open>Observations on effect lists\<close>

text \<open>The \<^verbatim>\<open>clipboard-update\<close> emissions of a run, as (target, payload), in order.\<close>

fun updatesSent :: "effect list \<Rightarrow> (target \<times> updateData) list" where
  "updatesSent [] = []"
| "updatesSent (Emit t (ClipboardUpdate u) # es) = (t, u) # updatesSent es"
| "updatesSent (e # es) = updatesSent es"

text \<open>The strings written to the operating system's clipboard.\<close>

fun osWrites :: "effect list \<Rightarrow> string list" where
  "osWrites [] = []"
| "osWrites (OsClipboardWrite c # es) = c # osWrites es"
| "osWrites (e # es) = osWrites es"

text \<open>Everything sent over sockets, and the console lines, in order.\<close>

fun emitted :: "effect list \<Rightarrow> (target \<times> event) list" where
  "emitted [] = []"
| "emitted (Emit t ev # es) = (t, ev) # emitted es"
| "emitted (e # es) = emitted es"

fun consoleLines :: "effect list \<Rightarrow> logline list" where
  "consoleLines [] = []"
| "consoleLines (Console l # es) = l # consoleLines es"
| "consoleLines (e # es) = consoleLines es"


text \<open>
  Recording a sequence of (time, content) pairs, one \<^verbatim>\<open>addToHistory\<close> call each.
\<close>

fun recordAll :: "config \<Rightarrow> server \<Rightarrow> (int \<times> string) list \<Rightarrow> server" where
  "recordAll K s [] = s"
| "recordAll K s ((t, c) # rest) = recordAll K (fst (addToHistory K s t (Str c))) rest"

text \<open>
  The general theorems below hold for every digest function. The closed
  examples need a concrete one; \<open>tag_digest\<close> is injective and never empty, as
  MD5's hex digests are on the strings of the examples.
\<close>

definition tag_digest :: "string \<Rightarrow> string" where
  "tag_digest c = CHR ''#'' # c"

subsection \<open>The tests of updateClipboard, named\<close>

text \<open>The conditions of the successive \<^verbatim>\<open>if\<close> statements of \<^verbatim>\<open>updateClipboard\<close>.\<close>

definition gateOpen :: "server \<Rightarrow> string \<Rightarrow> bool" where
  "gateOpen s sourceId = (autoSyncEnabled s \<or> sourceId = ''local'')"

definition rateLimited :: "config \<Rightarrow> server \<Rightarrow> int \<Rightarrow> bool" where
  "rateLimited K s now = (now - lastSyncTime s < minSyncInterval K)"

definition inConflictWindow :: "server \<Rightarrow> string \<Rightarrow> int \<Rightarrow> bool" where
  "inConflictWindow s contentHash now =
     (case conflictResolver s contentHash of
        Some existingTime \<Rightarrow> now - existingTime < 1000
      | None \<Rightarrow> False)"

text \<open>The update gets as far as the content filter.\<close>

definition reachesFilter :: "config \<Rightarrow> server \<Rightarrow> int \<Rightarrow> jsval \<Rightarrow> string \<Rightarrow> bool" where
  "reachesFilter K s now content sourceId =
     (gateOpen s sourceId \<and> generateHash K content \<noteq> lastClipboardHash s
      \<and> \<not> rateLimited K s now \<and> \<not> inConflictWindow s (generateHash K content) now)"

text \<open>The four assignments made just before the filter runs.\<close>

definition bookkeeping :: "config \<Rightarrow> server \<Rightarrow> int \<Rightarrow> jsval \<Rightarrow> server" where
  "bookkeeping K s now content =
     s\<lparr>conflictResolver := (conflictResolver s)(generateHash K content \<mapsto> now),
       lastSyncTime := now,
       lastClipboard := content,
       lastClipboardHash := generateHash K content\<rparr>"

text \<open>The payload \<^verbatim>\<open>updateData\<close> of the broadcast.\<close>

definition updatePayload :: "config \<Rightarrow> int \<Rightarrow> jsval \<Rightarrow> string \<Rightarrow> updateData" where
  "updatePayload K now content sourceId =
     \<lparr>u_content = content, u_from = sourceId, u_timestamp = now,
      u_hash = generateHash K content, u_autoWrite = True, u_force = False\<rparr>"

text \<open>The entry pushed onto \<^verbatim>\<open>syncQueue\<close>.\<close>

definition queueEntry :: "config \<Rightarrow> int \<Rightarrow> jsval \<Rightarrow> string \<Rightarrow> bool \<Rightarrow> queued" where
  "queueEntry K now content sourceId autoWrite =
     \<lparr>q_content = content, q_sourceId = sourceId, q_autoWrite = autoWrite,
      q_timestamp = now, q_hash = generateHash K content\<rparr>"

subsection \<open>Examples\<close>

text \<open>
  The default configuration with the digest \<open>tag_digest\<close>, and a server on
  which D1 and D3 registered with auto-sync and D2 without.
\<close>

definition example_config :: config where
  "example_config = enhanced_config tag_digest False"

text \<open>The same configuration for a server started with \<^verbatim>\<open>--headless\<close>.\<close>

definition headless_config :: config where
  "headless_config = enhanced_config tag_digest True"

definition plainInfo :: deviceInfo where
  "plainInfo =
     \<lparr>info_name = None, info_type = None, info_userAgent = None, info_autoSync = None,
      info_capabilities = None\<rparr>"

definition three_devices :: server where
  "three_devices =
     fst (registerDevice
            (fst (registerDevice
                    (fst (registerDevice new_server 1 ''D1'' plainInfo))
                    2 ''D2'' (plainInfo\<lparr>info_autoSync := Some False\<rparr>)))
            3 ''D3'' plainInfo)"

text \<open>D1's hello, accepted at time 1000.\<close>

definition after_hello :: server where
  "after_hello =
     fst (updateClipboard example_config three_devices 1000 False (Str ''hello'') ''D1'' True)"



text \<open>
  After the hello: sync paused through \<^verbatim>\<open>POST /api/settings\<close>; and, instead, D1
  sending a string that matches two of the sensitive patterns, at time 5000.
\<close>

definition paused :: server where
  "paused = fst (apiPostSettings after_hello (Some False) None)"

definition after_secret :: server where
  "after_secret =
     fst (updateClipboard example_config after_hello 5000 False
            (Str ''my api_key: xyz123'') ''D1'' True)"













text \<open>A terminal whose preferred method fails.\<close>

definition failing_terminal :: terminalEnv where
  "failing_terminal =
     \<lparr>detected = True, methodIsFile = False, primaryFails = True, fallbackFails = False\<rparr>"

text \<open>
  D1's hello on a headless server in terminal-only mode, suspended at the
  \<^verbatim>\<open>await\<close>.
\<close>

definition hello_suspended :: server where
  "hello_suspended =
     fst (updateClipboardTerminal headless_config three_devices 1000 (Str ''hello'') ''D1'' True)"

definition hello_pending :: pendingWrite where
  "hello_pending =
     \<lparr>p_content = Str ''hello'', p_sourceId = ''D1'', p_now = 1000, p_hash = ''#hello''\<rparr>"

section \<open>Properties\<close>

subsection \<open>The history store\<close>

lemma findIndex_None: "findIndex P xs = None \<longleftrightarrow> (\<forall>x\<in>set xs. \<not> P x)"
  by (induction xs) auto

lemma findIndex_first:
  "i < length xs \<Longrightarrow> P (xs ! i) \<Longrightarrow> (\<forall>j<i. \<not> P (xs ! j)) \<Longrightarrow> findIndex P xs = Some i"
proof (induction xs arbitrary: i)
  case Nil
  then show ?case by simp
next
  case (Cons x xs)
  show ?case
  proof (cases i)
    case 0
    with Cons.prems show ?thesis by simp
  next
    case (Suc k)
    from Cons.prems Suc have nx: "\<not> P x" by auto
    from Cons.prems Suc have "k < length xs" "P (xs ! k)" by auto
    moreover from Cons.prems Suc have "\<forall>j<k. \<not> P (xs ! j)" by auto
    ultimately have "findIndex P xs = Some k" by (rule Cons.IH)
    with nx Suc show ?thesis by simp
  qed
qed

lemma addToHistory_front:
  assumes "truthy content" "clipboardHistory s = x # xs" "hi_hash x = generateHash K content"
  shows "addToHistory K s now content = (s, [])"
  using assms by (simp add: addToHistory_def)

lemma addToHistory_move:
  assumes "truthy content" "0 < i" "i < length (clipboardHistory s)"
    "hi_hash (clipboardHistory s ! i) = generateHash K content"
    "\<forall>j<i. hi_hash (clipboardHistory s ! j) \<noteq> generateHash K content"
    "h2 = take (maxHistorySize K)
            ((clipboardHistory s ! i) # (take i (clipboardHistory s) @ drop (Suc i) (clipboardHistory s)))"
  shows "addToHistory K s now content =
           (s\<lparr>clipboardHistory := h2\<rparr>, [Emit AllSockets (ClipboardHistory h2)])"
proof -
  have "findIndex (\<lambda>item. hi_hash item = generateHash K content) (clipboardHistory s) = Some i"
    using assms by (intro findIndex_first) auto
  with assms show ?thesis by (simp add: addToHistory_def Let_def)
qed

lemma addToHistory_new:
  assumes "truthy content" "\<forall>x\<in>set (clipboardHistory s). hi_hash x \<noteq> generateHash K content"
    "h2 = take (maxHistorySize K) (newHistoryItem K now (orEmpty content) # clipboardHistory s)"
  shows "addToHistory K s now content =
           (s\<lparr>clipboardHistory := h2\<rparr>, [Emit AllSockets (ClipboardHistory h2)])"
proof -
  have "findIndex (\<lambda>item. hi_hash item = generateHash K content) (clipboardHistory s) = None"
    using assms by (simp add: findIndex_None)
  with assms show ?thesis by (simp add: addToHistory_def Let_def)
qed

lemma take_Cons_take: "take n (x # take n ys) = take n (x # ys)"
  by (cases n) simp_all

lemma recordAll_distinct:
  assumes "\<forall>(t, c)\<in>set xs. c \<noteq> []"
    "distinct (map (\<lambda>(t, c). md5hex K c) xs)"
    "\<forall>(t, c)\<in>set xs. \<forall>x\<in>set (clipboardHistory s). hi_hash x \<noteq> md5hex K c"
    "length (clipboardHistory s) \<le> maxHistorySize K"
  shows "clipboardHistory (recordAll K s xs) =
           take (maxHistorySize K) (rev (map (\<lambda>(t, c). newHistoryItem K t c) xs) @ clipboardHistory s)"
  using assms
proof (induction xs arbitrary: s)
  case Nil
  then show ?case by simp
next
  case (Cons p rest)
  obtain t c where p: "p = (t, c)" by (cases p)
  let ?s1 = "fst (addToHistory K s t (Str c))"
  have c: "c \<noteq> []" using Cons.prems(1) p by auto
  have fresh: "\<forall>x\<in>set (clipboardHistory s). hi_hash x \<noteq> generateHash K (Str c)"
    using Cons.prems(3) p by (auto simp: generateHash_def)
  have h1: "clipboardHistory ?s1 = take (maxHistorySize K) (newHistoryItem K t c # clipboardHistory s)"
    using addToHistory_new [of "Str c" s K _ t] c fresh by simp
  have a1: "\<forall>(t, c)\<in>set rest. c \<noteq> []" using Cons.prems(1) by auto
  have a2: "distinct (map (\<lambda>(t, c). md5hex K c) rest)" using Cons.prems(2) by simp
  have a3: "\<forall>(t', c')\<in>set rest. \<forall>x\<in>set (clipboardHistory ?s1). hi_hash x \<noteq> md5hex K c'"
  proof (clarify)
    fix t' c' x assume r: "(t', c') \<in> set rest" and x: "x \<in> set (clipboardHistory ?s1)"
      and e: "hi_hash x = md5hex K c'"
    from x h1 have "x \<in> set (newHistoryItem K t c # clipboardHistory s)"
      by (auto dest: in_set_takeD)
    then consider "x = newHistoryItem K t c" | "x \<in> set (clipboardHistory s)" by auto
    then show False
    proof cases
      case 1
      then have "md5hex K c = md5hex K c'" using e by (simp add: newHistoryItem_def generateHash_def)
      moreover have "md5hex K c \<notin> (\<lambda>(t, c). md5hex K c) ` set rest" using Cons.prems(2) p by simp
      ultimately show False using r by force
    next
      case 2
      then show False using Cons.prems(3) r e by force
    qed
  qed
  have a4: "length (clipboardHistory ?s1) \<le> maxHistorySize K" using h1 by simp
  have "clipboardHistory (recordAll K ?s1 rest) =
          take (maxHistorySize K) (rev (map (\<lambda>(t, c). newHistoryItem K t c) rest) @ clipboardHistory ?s1)"
    using a1 a2 a3 a4 by (rule Cons.IH)
  also have "\<dots> = take (maxHistorySize K)
       (rev (map (\<lambda>(t, c). newHistoryItem K t c) rest) @ newHistoryItem K t c # clipboardHistory s)"
    unfolding h1
    by (simp add: take_Cons_take) 
  finally show ?case using p by simp
qed

lemma recordAll_overflow:
  assumes "length xs = Suc (maxHistorySize K)" "\<forall>(t, c)\<in>set xs. c \<noteq> []"
    "distinct (map (\<lambda>(t, c). md5hex K c) xs)" "clipboardHistory s = []"
  shows "clipboardHistory (recordAll K s xs) = rev (map (\<lambda>(t, c). newHistoryItem K t c) (tl xs))"
proof -
  have "clipboardHistory (recordAll K s xs) =
          take (maxHistorySize K) (rev (map (\<lambda>(t, c). newHistoryItem K t c) xs) @ clipboardHistory s)"
    using assms by (intro recordAll_distinct) auto
  also have "\<dots> = rev (drop 1 (map (\<lambda>(t, c). newHistoryItem K t c) xs))"
    using assms(1,4) by (simp add: take_rev)
  finally show ?thesis by (simp add: drop_Suc map_tl)
qed

lemma recordAll_ABA:
  assumes "a \<noteq> []" "b \<noteq> []" "md5hex K a \<noteq> md5hex K b" "2 \<le> maxHistorySize K"
    "clipboardHistory s = []"
  shows "clipboardHistory (recordAll K s [(t1, a), (t2, b), (t3, a)]) =
           [newHistoryItem K t1 a, newHistoryItem K t2 b]"
proof -
  let ?A = "newHistoryItem K t1 a" and ?B = "newHistoryItem K t2 b"
  have hA: "hi_hash ?A = generateHash K (Str a)" and hB: "hi_hash ?B = generateHash K (Str b)"
    by (simp_all add: newHistoryItem_def)
  have ne: "generateHash K (Str a) \<noteq> generateHash K (Str b)"
    using assms(3) by (simp add: generateHash_def)
  have 1: "addToHistory K s t1 (Str a) =
             (s\<lparr>clipboardHistory := [?A]\<rparr>, [Emit AllSockets (ClipboardHistory [?A])])"
    using assms by (intro addToHistory_new) auto
  have 2: "addToHistory K (s\<lparr>clipboardHistory := [?A]\<rparr>) t2 (Str b) =
             (s\<lparr>clipboardHistory := [?B, ?A]\<rparr>, [Emit AllSockets (ClipboardHistory [?B, ?A])])"
    using addToHistory_new [of "Str b" "s\<lparr>clipboardHistory := [?A]\<rparr>" K "[?B, ?A]" t2]
      assms ne hA by simp
  have 3: "addToHistory K (s\<lparr>clipboardHistory := [?B, ?A]\<rparr>) t3 (Str a) =
             (s\<lparr>clipboardHistory := [?A, ?B]\<rparr>, [Emit AllSockets (ClipboardHistory [?A, ?B])])"
    using addToHistory_move [of "Str a" 1 "s\<lparr>clipboardHistory := [?B, ?A]\<rparr>" K "[?A, ?B]" t3]
      assms ne hA hB by simp
  show ?thesis by (simp add: 1 2 3)
qed

subsection \<open>The history contract\<close>

text \<open>
  Claim C3, as the code has it. One call of \<^verbatim>\<open>addToHistory\<close> with non-empty
  content: when the content's hash is the front item's hash, nothing changes and
  nothing is emitted; when the hash first occurs at a later position \<open>i\<close>, the
  item stored there moves to the front as it is, with the content, preview, size
  and timestamp of its earlier recording; otherwise a new item is put in front.
  In the last two cases the list is cut to its first \<^verbatim>\<open>maxHistorySize\<close> items and
  sent to every socket. So recording A, B, A into an empty history of capacity at
  least two leaves A (as recorded the first time) before B, and recording one
  more than \<^verbatim>\<open>maxHistorySize\<close> contents with distinct hashes into an empty history
  leaves exactly the last \<^verbatim>\<open>maxHistorySize\<close> of them, newest first.
\<close>

theorem addToHistory_contract:
  "(truthy content \<longrightarrow>
      (\<forall>x xs. clipboardHistory s = x # xs \<and> hi_hash x = generateHash K content \<longrightarrow>
         addToHistory K s now content = (s, []))
    \<and> (\<forall>i h2. 0 < i \<and> i < length (clipboardHistory s)
         \<and> hi_hash (clipboardHistory s ! i) = generateHash K content
         \<and> (\<forall>j<i. hi_hash (clipboardHistory s ! j) \<noteq> generateHash K content)
         \<and> h2 = take (maxHistorySize K)
                  ((clipboardHistory s ! i)
                    # (take i (clipboardHistory s) @ drop (Suc i) (clipboardHistory s))) \<longrightarrow>
         addToHistory K s now content =
           (s\<lparr>clipboardHistory := h2\<rparr>, [Emit AllSockets (ClipboardHistory h2)]))
    \<and> (\<forall>h2. (\<forall>x\<in>set (clipboardHistory s). hi_hash x \<noteq> generateHash K content)
         \<and> h2 = take (maxHistorySize K)
                  (newHistoryItem K now (orEmpty content) # clipboardHistory s) \<longrightarrow>
         addToHistory K s now content =
           (s\<lparr>clipboardHistory := h2\<rparr>, [Emit AllSockets (ClipboardHistory h2)])))
   \<and> (\<forall>a b t1 t2 t3. a \<noteq> [] \<and> b \<noteq> [] \<and> md5hex K a \<noteq> md5hex K b
         \<and> 2 \<le> maxHistorySize K \<and> clipboardHistory s = [] \<longrightarrow>
         clipboardHistory (recordAll K s [(t1, a), (t2, b), (t3, a)]) =
           [newHistoryItem K t1 a, newHistoryItem K t2 b])
   \<and> (\<forall>xs. length xs = Suc (maxHistorySize K) \<and> (\<forall>(t, c)\<in>set xs. c \<noteq> [])
         \<and> distinct (map (\<lambda>(t, c). md5hex K c) xs) \<and> clipboardHistory s = [] \<longrightarrow>
         clipboardHistory (recordAll K s xs) =
           rev (map (\<lambda>(t, c). newHistoryItem K t c) (tl xs)))"
proof (intro conjI impI allI)
  fix x xs
  assume "truthy content" "clipboardHistory s = x # xs \<and> hi_hash x = generateHash K content"
  then show "addToHistory K s now content = (s, [])"
    using addToHistory_front by blast
next
  fix i h2
  assume "truthy content"
    "0 < i \<and> i < length (clipboardHistory s)
         \<and> hi_hash (clipboardHistory s ! i) = generateHash K content
         \<and> (\<forall>j<i. hi_hash (clipboardHistory s ! j) \<noteq> generateHash K content)
         \<and> h2 = take (maxHistorySize K)
                  ((clipboardHistory s ! i)
                    # (take i (clipboardHistory s) @ drop (Suc i) (clipboardHistory s)))"
  then show "addToHistory K s now content =
           (s\<lparr>clipboardHistory := h2\<rparr>, [Emit AllSockets (ClipboardHistory h2)])"
    using addToHistory_move [of content i s K h2 now] by blast
next
  fix h2
  assume "truthy content"
    "(\<forall>x\<in>set (clipboardHistory s). hi_hash x \<noteq> generateHash K content)
         \<and> h2 = take (maxHistorySize K)
                  (newHistoryItem K now (orEmpty content) # clipboardHistory s)"
  then show "addToHistory K s now content =
           (s\<lparr>clipboardHistory := h2\<rparr>, [Emit AllSockets (ClipboardHistory h2)])"
    using addToHistory_new [of content s K h2 now] by blast
next
  fix a b :: string and t1 t2 t3 :: int
  assume "a \<noteq> [] \<and> b \<noteq> [] \<and> md5hex K a \<noteq> md5hex K b
         \<and> 2 \<le> maxHistorySize K \<and> clipboardHistory s = []"
  then show "clipboardHistory (recordAll K s [(t1, a), (t2, b), (t3, a)]) =
           [newHistoryItem K t1 a, newHistoryItem K t2 b]"
    using recordAll_ABA by blast
next
  fix xs :: "(int \<times> string) list"
  assume "length xs = Suc (maxHistorySize K) \<and> (\<forall>(t, c)\<in>set xs. c \<noteq> [])
         \<and> distinct (map (\<lambda>(t, c). md5hex K c) xs) \<and> clipboardHistory s = []"
  then show "clipboardHistory (recordAll K s xs) =
           rev (map (\<lambda>(t, c). newHistoryItem K t c) (tl xs))"
    using recordAll_overflow by blast
qed

text \<open>The contract at A, B, A on a new server.\<close>

theorem addToHistory_contract_witness:
  "truthy (Str ''A'') \<and> ''A'' \<noteq> [] \<and> ''B'' \<noteq> []
   \<and> md5hex (enhanced_config tag_digest False) ''A'' \<noteq> md5hex (enhanced_config tag_digest False) ''B''
   \<and> 2 \<le> maxHistorySize (enhanced_config tag_digest False) \<and> clipboardHistory new_server = []
   \<and> clipboardHistory (recordAll (enhanced_config tag_digest False) new_server
        [(1, ''A''), (2, ''B''), (3, ''A'')]) =
       [newHistoryItem (enhanced_config tag_digest False) 1 ''A'',
        newHistoryItem (enhanced_config tag_digest False) 2 ''B'']
   \<and> addToHistory (enhanced_config tag_digest False) new_server 1 (Str ''A'') =
       (new_server\<lparr>clipboardHistory := [newHistoryItem (enhanced_config tag_digest False) 1 ''A'']\<rparr>,
        [Emit AllSockets (ClipboardHistory [newHistoryItem (enhanced_config tag_digest False) 1 ''A''])])"
proof -
  note T = addToHistory_contract [of "Str ''A''" new_server "enhanced_config tag_digest False" 1]
  have pre: "''A'' \<noteq> [] \<and> ''B'' \<noteq> []
     \<and> md5hex (enhanced_config tag_digest False) ''A'' \<noteq> md5hex (enhanced_config tag_digest False) ''B''
     \<and> 2 \<le> maxHistorySize (enhanced_config tag_digest False) \<and> clipboardHistory new_server = []"
    by (simp add: enhanced_config_def tag_digest_def new_server_def)
  from T have "\<forall>a b t1 t2 t3. a \<noteq> [] \<and> b \<noteq> []
         \<and> md5hex (enhanced_config tag_digest False) a \<noteq> md5hex (enhanced_config tag_digest False) b
         \<and> 2 \<le> maxHistorySize (enhanced_config tag_digest False) \<and> clipboardHistory new_server = [] \<longrightarrow>
         clipboardHistory (recordAll (enhanced_config tag_digest False) new_server [(t1, a), (t2, b), (t3, a)]) =
           [newHistoryItem (enhanced_config tag_digest False) t1 a, newHistoryItem (enhanced_config tag_digest False) t2 b]"
    by blast
  with pre have aba: "clipboardHistory (recordAll (enhanced_config tag_digest False) new_server
        [(1, ''A''), (2, ''B''), (3, ''A'')]) =
       [newHistoryItem (enhanced_config tag_digest False) 1 ''A'',
        newHistoryItem (enhanced_config tag_digest False) 2 ''B'']"
    by blast
  have tr: "truthy (Str ''A'')" by simp
  have "(\<forall>x\<in>set (clipboardHistory new_server). hi_hash x \<noteq> generateHash (enhanced_config tag_digest False) (Str ''A''))
     \<and> [newHistoryItem (enhanced_config tag_digest False) 1 ''A''] = take (maxHistorySize (enhanced_config tag_digest False))
                  (newHistoryItem (enhanced_config tag_digest False) 1 (orEmpty (Str ''A'')) # clipboardHistory new_server)"
    by (simp add: new_server_def enhanced_config_def)
  with T tr have new: "addToHistory (enhanced_config tag_digest False) new_server 1 (Str ''A'') =
       (new_server\<lparr>clipboardHistory := [newHistoryItem (enhanced_config tag_digest False) 1 ''A'']\<rparr>,
        [Emit AllSockets (ClipboardHistory [newHistoryItem (enhanced_config tag_digest False) 1 ''A''])])"
    by blast
  from tr pre aba new show ?thesis by blast
qed

text \<open>
  Recorded at times 1, 2 and 3, the contents A, B, A leave A in front with the
  timestamp 1 of its first recording, not 3.
\<close>

theorem addToHistory_keeps_old_timestamp:
  "map hi_content (clipboardHistory (recordAll (enhanced_config tag_digest False) new_server
        [(1, ''A''), (2, ''B''), (3, ''A'')])) = [''A'', ''B'']
   \<and> hi_timestamp (hd (clipboardHistory (recordAll (enhanced_config tag_digest False) new_server
        [(1, ''A''), (2, ''B''), (3, ''A'')]))) = 1
   \<and> hi_timestamp (hd (clipboardHistory (recordAll (enhanced_config tag_digest False) new_server
        [(1, ''A''), (2, ''B''), (3, ''A'')]))) \<noteq> 3"
  by (simp add: addToHistory_def enhanced_config_def tag_digest_def new_server_def
      generateHash_def newHistoryItem_def Let_def)

subsection \<open>The paths of updateClipboard\<close>

lemma updatesSent_append: "updatesSent (xs @ ys) = updatesSent xs @ updatesSent ys"
  by (induction xs rule: updatesSent.induct) simp_all

lemma osWrites_append: "osWrites (xs @ ys) = osWrites xs @ osWrites ys"
  by (induction xs rule: osWrites.induct) simp_all

lemma addToHistory_effects:
  "snd (addToHistory K s now content) = []
   \<or> snd (addToHistory K s now content) =
        [Emit AllSockets (ClipboardHistory (clipboardHistory (fst (addToHistory K s now content))))]"
  by (simp add: addToHistory_def Let_def)

lemma addToHistory_updatesSent: "updatesSent (snd (addToHistory K s now content)) = []"
  using addToHistory_effects [of K s now content] by auto

lemma addToHistory_osWrites: "osWrites (snd (addToHistory K s now content)) = []"
  using addToHistory_effects [of K s now content] by auto

lemma addToHistory_other_fields:
  "fst (addToHistory K s now content) =
     s\<lparr>clipboardHistory := clipboardHistory (fst (addToHistory K s now content))\<rparr>"
  by (simp add: addToHistory_def Let_def)

lemma addToHistory_devices:
  "connectedDevices (fst (addToHistory K s now content)) = connectedDevices s"
  by (simp add: addToHistory_def Let_def)

lemma writeSystemClipboard_updatesSent: "updatesSent (writeSystemClipboard K wfail c) = []"
  by (simp add: writeSystemClipboard_def)


lemma uc_gate:
  "\<not> gateOpen s sourceId \<Longrightarrow>
   updateClipboard K s now wfail content sourceId aw =
     (s, SkippedAutoSyncOff, [Console LogAutoSyncDisabled])"
  by (simp add: updateClipboard_def gateOpen_def)

lemma uc_same:
  "gateOpen s sourceId \<Longrightarrow> generateHash K content = lastClipboardHash s \<Longrightarrow>
   updateClipboard K s now wfail content sourceId aw = (s, SkippedSameHash, [])"
  by (auto simp add: updateClipboard_def gateOpen_def)

lemma uc_queue:
  "gateOpen s sourceId \<Longrightarrow> generateHash K content \<noteq> lastClipboardHash s \<Longrightarrow>
   rateLimited K s now \<Longrightarrow>
   updateClipboard K s now wfail content sourceId aw =
     (s\<lparr>syncQueue := syncQueue s @ [queueEntry K now content sourceId aw],
        processing := True\<rparr>,
      Queued,
      if processing s then [] else [SetTimeout (minSyncInterval K)])"
  by (cases s) (auto simp add: updateClipboard_def gateOpen_def rateLimited_def Let_def
      processSyncQueue_def queueEntry_def)

lemma uc_conflict:
  "gateOpen s sourceId \<Longrightarrow> generateHash K content \<noteq> lastClipboardHash s \<Longrightarrow>
   \<not> rateLimited K s now \<Longrightarrow> inConflictWindow s (generateHash K content) now \<Longrightarrow>
   updateClipboard K s now wfail content sourceId aw = (s, SkippedConflict, [Console LogConflict])"
  by (auto simp add: updateClipboard_def gateOpen_def rateLimited_def Let_def
      inConflictWindow_def)

lemma uc_blocked:
  "reachesFilter K s now content sourceId \<Longrightarrow> isContentFiltered K content \<Longrightarrow>
   updateClipboard K s now wfail content sourceId aw =
     (bookkeeping K s now content, Blocked,
      isContentFiltered_console K content @ [Console LogBlocked])"
  by (auto simp add: updateClipboard_def reachesFilter_def gateOpen_def rateLimited_def Let_def
      inConflictWindow_def bookkeeping_def)

lemma uc_synced:
  "reachesFilter K s now content sourceId \<Longrightarrow> \<not> isContentFiltered K content \<Longrightarrow>
   updateClipboard K s now wfail content sourceId aw =
     ((fst (addToHistory K (bookkeeping K s now content) now content))
        \<lparr>totalSyncs := Suc (totalSyncs s)\<rparr>,
      Synced,
      (if aw \<and> sourceId \<noteq> ''local''
       then writeSystemClipboard K wfail (orEmpty content) else []) @
      snd (addToHistory K (bookkeeping K s now content) now content) @
      broadcast (updatePayload K now content sourceId) sourceId (connectedDevices s) @
      (if \<not> headless K
       then [Console (LogSynced (getAutoSyncDeviceCount s) (length (orEmpty content)))]
       else []))"
  apply (simp add: updateClipboard_def reachesFilter_def gateOpen_def rateLimited_def Let_def
      inConflictWindow_def case_prod_beta updatePayload_def addToHistory_devices
      getAutoSyncDeviceCount_def)
  apply (subst (1 2 3 4) addToHistory_other_fields)
  apply (simp add: bookkeeping_def)
  done

lemma broadcast_updatesSent:
  "updatesSent (broadcast u src devs) =
     map (\<lambda>(d, dev). (Socket d, u)) (filter (\<lambda>(d, dev). d \<noteq> src \<and> autoSync dev) devs)"
  by (induction u src devs rule: broadcast.induct) simp_all

lemma console_updatesSent: "updatesSent (isContentFiltered_console K content) = []"
  by (cases content) simp_all

lemma console_osWrites: "osWrites (isContentFiltered_console K content) = []"
  by (cases content) simp_all

lemma broadcast_osWrites: "osWrites (broadcast u src devs) = []"
  by (induction u src devs rule: broadcast.induct) simp_all

text \<open>Every run takes exactly one of six paths.\<close>

lemma uc_paths:
  obtains
    (gate) "\<not> gateOpen s sourceId"
      "updateClipboard K s now wfail content sourceId aw =
         (s, SkippedAutoSyncOff, [Console LogAutoSyncDisabled])"
  | (same) "gateOpen s sourceId" "generateHash K content = lastClipboardHash s"
      "updateClipboard K s now wfail content sourceId aw = (s, SkippedSameHash, [])"
  | (queue) "gateOpen s sourceId" "generateHash K content \<noteq> lastClipboardHash s"
      "rateLimited K s now"
      "updateClipboard K s now wfail content sourceId aw =
         (s\<lparr>syncQueue := syncQueue s @ [queueEntry K now content sourceId aw],
            processing := True\<rparr>,
          Queued, if processing s then [] else [SetTimeout (minSyncInterval K)])"
  | (conflict) "gateOpen s sourceId" "generateHash K content \<noteq> lastClipboardHash s"
      "\<not> rateLimited K s now" "inConflictWindow s (generateHash K content) now"
      "updateClipboard K s now wfail content sourceId aw =
         (s, SkippedConflict, [Console LogConflict])"
  | (blocked) "reachesFilter K s now content sourceId" "isContentFiltered K content"
      "updateClipboard K s now wfail content sourceId aw =
         (bookkeeping K s now content, Blocked,
          isContentFiltered_console K content @ [Console LogBlocked])"
  | (synced) "reachesFilter K s now content sourceId" "\<not> isContentFiltered K content"
      "updateClipboard K s now wfail content sourceId aw =
         ((fst (addToHistory K (bookkeeping K s now content) now content))
            \<lparr>totalSyncs := Suc (totalSyncs s)\<rparr>,
          Synced,
          (if aw \<and> sourceId \<noteq> ''local''
           then writeSystemClipboard K wfail (orEmpty content) else []) @
          snd (addToHistory K (bookkeeping K s now content) now content) @
          broadcast (updatePayload K now content sourceId) sourceId (connectedDevices s) @
          (if \<not> headless K
           then [Console (LogSynced (getAutoSyncDeviceCount s) (length (orEmpty content)))]
           else []))"
proof (cases "gateOpen s sourceId")
  case False
  then show ?thesis using gate uc_gate by blast
next
  case g: True
  show ?thesis
  proof (cases "generateHash K content = lastClipboardHash s")
    case True
    with g show ?thesis using same uc_same by blast
  next
    case h: False
    show ?thesis
    proof (cases "rateLimited K s now")
      case True
      with g h show ?thesis using queue uc_queue by blast
    next
      case rl: False
      show ?thesis
      proof (cases "inConflictWindow s (generateHash K content) now")
        case True
        with g h rl show ?thesis using conflict uc_conflict by blast
      next
        case False
        with g h rl have rf: "reachesFilter K s now content sourceId"
          by (simp add: reachesFilter_def)
        show ?thesis
        proof (cases "isContentFiltered K content")
          case True
          with rf show ?thesis using blocked uc_blocked by blast
        next
          case False
          with rf show ?thesis using synced uc_synced by blast
        qed
      qed
    qed
  qed
qed

lemma uc_not_synced:
  assumes "updateClipboard K s now wfail content sourceId aw = (s', r, effs)" "r \<noteq> Synced"
  shows "updatesSent effs = [] \<and> osWrites effs = [] \<and> clipboardHistory s' = clipboardHistory s
         \<and> connectedDevices s' = connectedDevices s"
  using assms
  by (cases rule: uc_paths [of s sourceId K now wfail content aw])
     (auto simp: updatesSent_append osWrites_append console_updatesSent
        console_osWrites bookkeeping_def)

lemma uc_synced_iff:
  assumes "updateClipboard K s now wfail content sourceId aw = (s', r, effs)"
  shows "r = Synced \<longleftrightarrow> reachesFilter K s now content sourceId \<and> \<not> isContentFiltered K content"
  using assms
  by (cases rule: uc_paths [of s sourceId K now wfail content aw])
     (auto simp: reachesFilter_def)

lemma uc_synced_state:
  assumes "updateClipboard K s now wfail content sourceId aw = (s', Synced, effs)"
  shows "s' = (bookkeeping K s now content)
                \<lparr>clipboardHistory :=
                   clipboardHistory (fst (addToHistory K (bookkeeping K s now content) now content)),
                 totalSyncs := Suc (totalSyncs s)\<rparr>"
proof -
  have "fst (addToHistory K (bookkeeping K s now content) now content)
        = (bookkeeping K s now content)\<lparr>clipboardHistory :=
             clipboardHistory (fst (addToHistory K (bookkeeping K s now content) now content))\<rparr>"
    by (rule addToHistory_other_fields)
  with assms show ?thesis
    by (cases rule: uc_paths [of s sourceId K now wfail content aw]) auto
qed

lemma uc_synced_updatesSent:
  assumes "updateClipboard K s now wfail content sourceId aw = (s', Synced, effs)"
  shows "updatesSent effs =
           map (\<lambda>(d, dev). (Socket d, updatePayload K now content sourceId))
             (filter (\<lambda>(d, dev). d \<noteq> sourceId \<and> autoSync dev) (connectedDevices s))"
  using assms
  by (cases rule: uc_paths [of s sourceId K now wfail content aw])
     (auto simp: updatesSent_append writeSystemClipboard_updatesSent addToHistory_updatesSent
        broadcast_updatesSent)

lemma uc_bookkept:
  assumes "updateClipboard K s now wfail content sourceId aw = (s', r, effs)"
    "r = Synced \<or> r = Blocked"
  shows "lastClipboardHash s' = generateHash K content \<and> lastClipboard s' = content
         \<and> lastSyncTime s' = now \<and> autoSyncEnabled s' = autoSyncEnabled s
         \<and> gateOpen s sourceId \<and> syncQueue s' = syncQueue s \<and> processing s' = processing s"
proof (cases "r = Synced")
  case True
  with assms(1) uc_synced_state [of K s now wfail content sourceId aw s' effs]
    uc_synced_iff [of K s now wfail content sourceId aw s' r effs]
  show ?thesis by (auto simp add: bookkeeping_def reachesFilter_def)
next
  case False
  with assms have "r = Blocked" by simp
  with assms(1) show ?thesis
    by (cases rule: uc_paths [of s sourceId K now wfail content aw])
       (auto simp: bookkeeping_def reachesFilter_def)
qed

lemma fanout_set:
  assumes "distinct (map fst devs)"
  shows "(t, u) \<in> set (map (\<lambda>(d, dev). (Socket d, p))
                      (filter (\<lambda>(d, dev). d \<noteq> src \<and> autoSync dev) devs))
         \<longleftrightarrow> (\<exists>d dev. t = Socket d \<and> u = p \<and> map_of devs d = Some dev
                       \<and> autoSync dev \<and> d \<noteq> src)"
  using assms by auto

lemma distinct_Socket: "distinct xs \<Longrightarrow> distinct (map Socket xs)"
  by (simp add: distinct_map inj_on_def)

lemma fanout_distinct:
  assumes "distinct (map fst devs)"
  shows "distinct (map fst (map (\<lambda>(d, dev). (Socket d, p))
                      (filter (\<lambda>(d, dev). d \<noteq> src \<and> autoSync dev) devs)))"
proof -
  have e: "map fst (map (\<lambda>(d, dev). (Socket d, p)) (filter (\<lambda>(d, dev). d \<noteq> src \<and> autoSync dev) devs))
        = map Socket (map fst (filter (\<lambda>(d, dev). d \<noteq> src \<and> autoSync dev) devs))"
    by (simp add: case_prod_beta comp_def)
  have "distinct (map fst (filter (\<lambda>(d, dev). d \<noteq> src \<and> autoSync dev) devs))"
    using assms by (rule distinct_map_filter)
  then show ?thesis unfolding e by (rule distinct_Socket)
qed


subsection \<open>Evaluating the examples\<close>

lemmas regex_defs = default_patterns_def regex_test_def rx_password_def rx_secret_def
  rx_token_def rx_key_assign_def rx_api_key_def rx_card_def rx_email_def lit_ci_def ci_def
  once_def isLower_def isUpper_def isDigit_def isSpace_def isWordChar_def wordBoundary_def
  codeUnit_def

lemmas example_defs = example_config_def enhanced_config_def tag_digest_def plainInfo_def
  three_devices_def new_server_def registerDevice_def orDefault_def

lemma hello_not_filtered: "\<not> isContentFiltered example_config (Str ''hello'')"
  by (simp add: example_defs regex_defs)

lemma hello_reachesFilter:
  "reachesFilter example_config three_devices 1000 (Str ''hello'') ''D1''"
  by (simp add: example_defs Let_def reachesFilter_def gateOpen_def rateLimited_def
      inConflictWindow_def generateHash_def)

lemma hello_synced:
  "fst (snd (updateClipboard example_config three_devices 1000 False (Str ''hello'') ''D1'' True))
     = Synced"
  using uc_synced_iff [of example_config three_devices 1000 False "Str ''hello''" "''D1''" True]
    hello_not_filtered hello_reachesFilter
  by (metis prod.collapse)


subsection \<open>The device registry has one entry per socket\<close>

text \<open>
  \<^verbatim>\<open>connectedDevices\<close> is a \<^verbatim>\<open>Map\<close>, so its keys are distinct; the handlers of
  the model keep them so.
\<close>

lemma registry_keys_distinct:
  assumes "distinct (map fst (connectedDevices s))"
  shows "distinct (map fst (connectedDevices (fst (registerDevice s now socketId info))))"
    and "distinct (map fst (connectedDevices (fst (toggleAutoSync s socketId enabled))))"
    and "distinct (map fst (connectedDevices (fst (disconnect s socketId))))"
    and "connectedDevices (fst (updateClipboard K s now wfail content sourceId aw))
           = connectedDevices s"
    and "connectedDevices (fst (syncQueueTimeout K s now wfail)) = connectedDevices s"
proof -
  show "distinct (map fst (connectedDevices (fst (registerDevice s now socketId info))))"
    using assms by (simp add: registerDevice_def Let_def distinct_update)
  show "distinct (map fst (connectedDevices (fst (toggleAutoSync s socketId enabled))))"
    using assms by (simp add: toggleAutoSync_def distinct_update split: option.splits)
  show "distinct (map fst (connectedDevices (fst (disconnect s socketId))))"
    using assms by (simp add: disconnect_def Let_def distinct_delete)
  show u: "connectedDevices (fst (updateClipboard K s now wfail content sourceId aw))
           = connectedDevices s" for s now content sourceId aw
    by (cases rule: uc_paths [of s sourceId K now wfail content aw])
       (simp_all add: bookkeeping_def addToHistory_devices)
  show "connectedDevices (fst (syncQueueTimeout K s now wfail)) = connectedDevices s"
    using u [of "s\<lparr>syncQueue := []\<rparr>" now "q_content (last (syncQueue s))"
        "q_sourceId (last (syncQueue s))" "q_autoWrite (last (syncQueue s))"]
    by (auto simp add: syncQueueTimeout_def Let_def split: prod.splits)
qed

lemma new_server_keys_distinct: "distinct (map fst (connectedDevices new_server))"
  by (simp add: new_server_def)

subsection \<open>The fan-out of an accepted update\<close>

text \<open>
  Claim C5. A run of \<^verbatim>\<open>updateClipboard\<close> that accepts the update sends the
  \<^verbatim>\<open>clipboard-update\<close> event once to each registered device whose \<^verbatim>\<open>autoSync\<close>
  flag is set and whose id is not the update's \<^verbatim>\<open>sourceId\<close>, in the order of
  registration, and to nobody else; a run that does not accept sends none. The
  sender is never a target, and a registered device whose flag is off is never a
  target. (The \<^verbatim>\<open>clipboard-history\<close> event that \<^verbatim>\<open>addToHistory\<close> emits is not part
  of the fan-out: it is addressed to all sockets.)
\<close>

theorem broadcast_fanout:
  assumes "updateClipboard K s now wfail content sourceId aw = (s', r, effs)"
    and "distinct (map fst (connectedDevices s))"
  shows "(r = Synced \<longrightarrow>
            updatesSent effs =
              map (\<lambda>(d, dev). (Socket d, updatePayload K now content sourceId))
                (filter (\<lambda>(d, dev). d \<noteq> sourceId \<and> autoSync dev) (connectedDevices s)))
       \<and> (r \<noteq> Synced \<longrightarrow> updatesSent effs = [])
       \<and> (r = Synced \<longrightarrow>
            (\<forall>d. (\<exists>u. (Socket d, u) \<in> set (updatesSent effs))
                 \<longleftrightarrow> (\<exists>dev. map_of (connectedDevices s) d = Some dev \<and> autoSync dev
                            \<and> d \<noteq> sourceId)))
       \<and> distinct (map fst (updatesSent effs))
       \<and> (\<forall>u. (AllSockets, u) \<notin> set (updatesSent effs))
       \<and> (\<forall>u. (Socket sourceId, u) \<notin> set (updatesSent effs))
       \<and> (\<forall>d dev u. map_of (connectedDevices s) d = Some dev \<and> \<not> autoSync dev
             \<longrightarrow> (Socket d, u) \<notin> set (updatesSent effs))"
proof (cases "r = Synced")
  case False
  with assms(1) have "updatesSent effs = []" using uc_not_synced by blast
  with False show ?thesis by simp
next
  case True
  with assms(1) have u: "updatesSent effs =
      map (\<lambda>(d, dev). (Socket d, updatePayload K now content sourceId))
        (filter (\<lambda>(d, dev). d \<noteq> sourceId \<and> autoSync dev) (connectedDevices s))"
    using uc_synced_updatesSent by blast
  note m = fanout_set [OF assms(2), of _ _ "updatePayload K now content sourceId" sourceId]
  have d: "distinct (map fst (updatesSent effs))"
    unfolding u using assms(2) by (rule fanout_distinct)
  have a: "\<forall>d. (\<exists>u. (Socket d, u) \<in> set (updatesSent effs))
                 \<longleftrightarrow> (\<exists>dev. map_of (connectedDevices s) d = Some dev \<and> autoSync dev
                            \<and> d \<noteq> sourceId)"
    unfolding u m by auto
  have b: "\<forall>u. (AllSockets, u) \<notin> set (updatesSent effs)"
    unfolding u m by auto
  have c: "\<forall>u. (Socket sourceId, u) \<notin> set (updatesSent effs)"
    unfolding u m by auto
  have e: "\<forall>d dev u. map_of (connectedDevices s) d = Some dev \<and> \<not> autoSync dev
             \<longrightarrow> (Socket d, u) \<notin> set (updatesSent effs)"
    unfolding u m by auto
  from True u d a b c e show ?thesis by blast
qed

text \<open>D1 sends hello: of D2 (auto-sync off) and D3, only D3 is a target.\<close>

theorem broadcast_fanout_witness:
  "distinct (map fst (connectedDevices three_devices))
   \<and> fst (snd (updateClipboard example_config three_devices 1000 False (Str ''hello'') ''D1'' True))
       = Synced
   \<and> updatesSent (snd (snd (updateClipboard example_config three_devices 1000 False
                               (Str ''hello'') ''D1'' True)))
       = [(Socket ''D3'', updatePayload example_config 1000 (Str ''hello'') ''D1'')]"
proof -
  let ?run = "updateClipboard example_config three_devices 1000 False (Str ''hello'') ''D1'' True"
  have d: "distinct (map fst (connectedDevices three_devices))"
    by (simp add: example_defs Let_def)
  have e: "?run = (fst ?run, fst (snd ?run), snd (snd ?run))"
    by simp
  have f: "map (\<lambda>(d, dev). (Socket d, updatePayload example_config 1000 (Str ''hello'') ''D1''))
             (filter (\<lambda>(d, dev). d \<noteq> ''D1'' \<and> autoSync dev) (connectedDevices three_devices))
           = [(Socket ''D3'', updatePayload example_config 1000 (Str ''hello'') ''D1'')]"
    by (simp add: three_devices_def registerDevice_def plainInfo_def new_server_def Let_def)
  from broadcast_fanout [OF e d] hello_synced f show ?thesis using d by simp
qed

subsection \<open>Loop suppression\<close>

text \<open>
  Claim C2. When an update is accepted and an update with the same content is
  ingested next, from any source and at any time, the second one is discarded:
  the server object is unchanged, nothing is sent and nothing is written. Its
  fingerprint equals \<^verbatim>\<open>lastClipboardHash\<close>, which the first one set, so it takes
  the \<^verbatim>\<open>return\<close> of the hash test whenever it passes the auto-sync switch (always,
  when the first update came from a device). Whatever happens to the first
  update, the two runs never both broadcast.
\<close>

theorem duplicate_is_discarded:
  assumes "updateClipboard K s t1 w1 content src1 aw1 = (s1, r1, e1)"
    and "updateClipboard K s1 t2 w2 content src2 aw2 = (s2, r2, e2)"
  shows "(r1 = Synced \<longrightarrow>
            s2 = s1 \<and> updatesSent e2 = [] \<and> osWrites e2 = []
            \<and> (r2 = SkippedSameHash \<or> r2 = SkippedAutoSyncOff)
            \<and> (gateOpen s1 src2 \<longrightarrow> r2 = SkippedSameHash \<and> e2 = [])
            \<and> (src1 \<noteq> ''local'' \<longrightarrow> r2 = SkippedSameHash \<and> e2 = []))
       \<and> (updatesSent e1 = [] \<or> updatesSent e2 = [])
       \<and> \<not> (r1 = Synced \<and> r2 = Synced)"
proof (cases "r1 = Synced")
  case False
  with assms(1) have "updatesSent e1 = []" using uc_not_synced by blast
  with False show ?thesis by simp
next
  case True
  with assms(1) have f: "lastClipboardHash s1 = generateHash K content"
    "autoSyncEnabled s1 = autoSyncEnabled s" "gateOpen s src1"
    using uc_bookkept by blast+
  have g: "src1 \<noteq> ''local'' \<longrightarrow> gateOpen s1 src2"
    using f by (auto simp: gateOpen_def)
  show ?thesis
  proof (cases "gateOpen s1 src2")
    case True
    with f assms(2) have "(s2, r2, e2) = (s1, SkippedSameHash, [])"
      using uc_same [of s1 src2 K content t2 w2 aw2] by simp
    with \<open>r1 = Synced\<close> show ?thesis by simp
  next
    case False
    with assms(2) have "(s2, r2, e2) = (s1, SkippedAutoSyncOff, [Console LogAutoSyncDisabled])"
      using uc_gate [of s1 src2 K t2 w2 content aw2] by simp
    with \<open>r1 = Synced\<close> False g show ?thesis by auto
  qed
qed

text \<open>D1 sends hello, and D3 reports hello back a millisecond later.\<close>

theorem duplicate_is_discarded_witness:
  "fst (snd (updateClipboard example_config three_devices 1000 False (Str ''hello'') ''D1'' True))
     = Synced
   \<and> updateClipboard example_config
       (fst (updateClipboard example_config three_devices 1000 False (Str ''hello'') ''D1'' True))
       1001 False (Str ''hello'') ''D3'' True
     = (fst (updateClipboard example_config three_devices 1000 False (Str ''hello'') ''D1'' True),
        SkippedSameHash, [])"
proof -
  let ?run1 = "updateClipboard example_config three_devices 1000 False (Str ''hello'') ''D1'' True"
  let ?run2 = "updateClipboard example_config (fst ?run1) 1001 False (Str ''hello'') ''D3'' True"
  have e1: "?run1 = (fst ?run1, fst (snd ?run1), snd (snd ?run1))"
    by simp
  have e2: "?run2 = (fst ?run2, fst (snd ?run2), snd (snd ?run2))"
    by simp
  have n: "''D1'' \<noteq> ''local''" by simp
  from duplicate_is_discarded [OF e1 e2] hello_synced n
  have "fst ?run2 = fst ?run1 \<and> fst (snd ?run2) = SkippedSameHash \<and> snd (snd ?run2) = []"
    by blast
  then have "?run2 = (fst ?run1, SkippedSameHash, [])"
    by (metis e2)
  with hello_synced show ?thesis by simp
qed

subsection \<open>More on single runs\<close>

lemma findIndex_SomeD: "findIndex P xs = Some i \<Longrightarrow> i < length xs \<and> P (xs ! i)"
proof (induction xs arbitrary: i)
  case Nil
  then show ?case by simp
next
  case (Cons x xs)
  then show ?case by (cases i) (auto split: if_splits)
qed


lemma addToHistory_front_hash:
  assumes "truthy content" "0 < maxHistorySize K"
  shows "clipboardHistory (fst (addToHistory K s now content)) \<noteq> []
         \<and> hi_hash (hd (clipboardHistory (fst (addToHistory K s now content))))
             = generateHash K content"
proof (cases "findIndex (\<lambda>item. hi_hash item = generateHash K content) (clipboardHistory s)")
  case None
  with assms show ?thesis
    by (cases "maxHistorySize K")
       (auto simp: addToHistory_def Let_def newHistoryItem_def generateHash_def
          intro: arg_cong [where f = "md5hex K"] elim: truthy.elims)
next
  case (Some i)
  then have i: "i < length (clipboardHistory s)"
    "hi_hash (clipboardHistory s ! i) = generateHash K content"
    using findIndex_SomeD by fastforce+
  show ?thesis
  proof (cases i)
    case 0
    with Some i assms show ?thesis
      by (cases "clipboardHistory s") (auto simp: addToHistory_def Let_def)
  next
    case (Suc k)
    with Some i assms show ?thesis
      by (cases "maxHistorySize K") (auto simp: addToHistory_def Let_def)
  qed
qed

lemma not_filtered_truthy: "\<not> isContentFiltered K content \<Longrightarrow> truthy content"
  by (cases content) (auto split: if_splits)


text \<open>A run that is rate limited changes nothing but the queue and the timer flag.\<close>

lemma uc_rateLimited:
  assumes "updateClipboard K s now wfail content sourceId aw = (s', r, effs)"
    "rateLimited K s now"
  shows "s' = s\<lparr>syncQueue := syncQueue s', processing := processing s'\<rparr>"
    and "updatesSent effs = []" and "osWrites effs = []"
    and "r = Queued \<or> r = SkippedSameHash \<or> r = SkippedAutoSyncOff"
    and "gateOpen s sourceId \<and> generateHash K content \<noteq> lastClipboardHash s \<longrightarrow> r = Queued"
  using assms
  by (cases rule: uc_paths [of s sourceId K now wfail content aw];
      auto simp: reachesFilter_def)+

text \<open>
  A timer armed at \<open>t1\<close>, not before \<^verbatim>\<open>lastSyncTime\<close>, fires when the interval has
  passed.
\<close>

lemma timer_fires_after_interval:
  "lastSyncTime s \<le> t1 \<Longrightarrow> t1 + minSyncInterval K \<le> t3 \<Longrightarrow> \<not> rateLimited K s t3"
  by (simp add: rateLimited_def)



subsection \<open>Coalescing of queued updates\<close>


lemma after_hello_state:
  "after_hello = (bookkeeping example_config three_devices 1000 (Str ''hello''))
                \<lparr>clipboardHistory :=
                   clipboardHistory (fst (addToHistory example_config
                      (bookkeeping example_config three_devices 1000 (Str ''hello'')) 1000 (Str ''hello''))),
                 totalSyncs := Suc (totalSyncs three_devices)\<rparr>"
  unfolding after_hello_def
  using uc_synced_state [of example_config three_devices 1000 False "Str ''hello''" "''D1''" True]
    hello_synced
  by (metis prod.collapse)

lemma after_hello_fields:
  "lastSyncTime after_hello = 1000"
  "lastClipboardHash after_hello = ''#hello''"
  "lastClipboard after_hello = Str ''hello''"
  "autoSyncEnabled after_hello"
  "conflictResolver after_hello = [''#hello'' \<mapsto> 1000]"
  "connectedDevices after_hello = connectedDevices three_devices"
  "clipboardHistory after_hello = [newHistoryItem example_config 1000 ''hello'']"
  by (simp_all add: after_hello_state bookkeeping_def generateHash_def example_defs Let_def
      addToHistory_def)

lemma after_hello_queue: "syncQueue after_hello = []" "processing after_hello = False"
  by (simp_all add: after_hello_state bookkeeping_def example_defs Let_def)

lemma paused_fields: "paused = after_hello\<lparr>autoSyncEnabled := False\<rparr>"
  "\<not> autoSyncEnabled paused"
  by (simp_all add: paused_def apiPostSettings_def)

lemma secret_filtered: "isContentFiltered example_config (Str ''my api_key: xyz123'')"
  by (simp add: example_defs regex_defs)


lemma emitted_append: "emitted (xs @ ys) = emitted xs @ emitted ys"
  by (induction xs rule: emitted.induct) simp_all

lemma console_emitted: "emitted (isContentFiltered_console K content) = []"
  by (cases content) simp_all

lemma consoleLines_append: "consoleLines (xs @ ys) = consoleLines xs @ consoleLines ys"
  by (induction xs rule: consoleLines.induct) simp_all






















subsection \<open>The auto-sync switch\<close>

lemma addToHistory_autoSyncEnabled:
  "addToHistory K (s\<lparr>autoSyncEnabled := b\<rparr>) now content =
     (case addToHistory K s now content of (s', effs) \<Rightarrow> (s'\<lparr>autoSyncEnabled := b\<rparr>, effs))"
  by (simp add: addToHistory_def Let_def cong: option.case_cong)

lemma bookkeeping_autoSyncEnabled:
  "bookkeeping K (s\<lparr>autoSyncEnabled := b\<rparr>) now content =
     (bookkeeping K s now content)\<lparr>autoSyncEnabled := b\<rparr>"
  by (simp add: bookkeeping_def)

lemma local_passes_switch:
  "updateClipboard K (s\<lparr>autoSyncEnabled := b\<rparr>) now wfail content ''local'' aw =
     (case updateClipboard K s now wfail content ''local'' aw of
        (s', r, effs) \<Rightarrow> (s'\<lparr>autoSyncEnabled := b\<rparr>, r, effs))"
proof (cases rule: uc_paths [of s "''local''" K now wfail content aw])
  case gate
  then show ?thesis by (simp add: gateOpen_def)
next
  case same
  then show ?thesis
    using uc_same [of "s\<lparr>autoSyncEnabled := b\<rparr>" "''local''" K content now wfail aw]
    by (simp add: gateOpen_def)
next
  case queue
  then show ?thesis
    using uc_queue [of "s\<lparr>autoSyncEnabled := b\<rparr>" "''local''" K content now wfail aw]
    by (simp add: gateOpen_def rateLimited_def)
next
  case conflict
  then show ?thesis
    using uc_conflict [of "s\<lparr>autoSyncEnabled := b\<rparr>" "''local''" K content now wfail aw]
    by (simp add: gateOpen_def rateLimited_def inConflictWindow_def)
next
  case blocked
  then show ?thesis
    using uc_blocked [of K "s\<lparr>autoSyncEnabled := b\<rparr>" now content "''local''" wfail aw]
    by (simp add: reachesFilter_def gateOpen_def rateLimited_def inConflictWindow_def
        bookkeeping_autoSyncEnabled)
next
  case synced
  then show ?thesis
    using uc_synced [of K "s\<lparr>autoSyncEnabled := b\<rparr>" now content "''local''" wfail aw]
    by (simp add: reachesFilter_def gateOpen_def rateLimited_def inConflictWindow_def
        bookkeeping_autoSyncEnabled addToHistory_autoSyncEnabled getAutoSyncDeviceCount_def
        split: prod.splits)
qed

text \<open>
  Claim C6, as the code has it. While \<^verbatim>\<open>autoSyncEnabled\<close> is false,
  \<^verbatim>\<open>updateClipboard\<close> returns at once, with the server object unchanged and only a
  console line, for every \<^verbatim>\<open>sourceId\<close> other than \<^verbatim>\<open>'local'\<close>. That includes the
  updates of \<^verbatim>\<open>POST /api/clipboard\<close>, which come with \<^verbatim>\<open>sourceId = 'api'\<close>: they
  are skipped like a device's. Only the updates of the local monitor
  (\<^verbatim>\<open>sourceId = 'local'\<close>) are evaluated, exactly as they would be with the
  switch on.
\<close>

theorem paused_sync_exempts_only_local:
  assumes "\<not> autoSyncEnabled s"
  shows "(sourceId \<noteq> ''local'' \<longrightarrow>
            updateClipboard K s now wfail content sourceId aw =
              (s, SkippedAutoSyncOff, [Console LogAutoSyncDisabled]))
       \<and> (content \<noteq> Undefined \<longrightarrow>
            apiPostClipboard K s now wfail content =
              (s, Some SkippedAutoSyncOff, [Console LogAutoSyncDisabled, Respond 200]))
       \<and> updateClipboard K s now wfail content ''local'' aw =
            (case updateClipboard K (s\<lparr>autoSyncEnabled := True\<rparr>) now wfail content ''local'' aw of
               (s', r, effs) \<Rightarrow> (s'\<lparr>autoSyncEnabled := False\<rparr>, r, effs))
       \<and> monitorTick K s now readResult =
            (case monitorTick K (s\<lparr>autoSyncEnabled := True\<rparr>) now readResult of
               (s', r, effs) \<Rightarrow> (s'\<lparr>autoSyncEnabled := False\<rparr>, r, effs))"
proof -
  have s: "s = s\<lparr>autoSyncEnabled := True\<rparr>\<lparr>autoSyncEnabled := False\<rparr>"
    using assms by simp
  have 1: "sourceId \<noteq> ''local'' \<longrightarrow>
            updateClipboard K s now wfail content sourceId aw =
              (s, SkippedAutoSyncOff, [Console LogAutoSyncDisabled])"
    using assms by (simp add: uc_gate gateOpen_def)
  have 2: "content \<noteq> Undefined \<longrightarrow>
            apiPostClipboard K s now wfail content =
              (s, Some SkippedAutoSyncOff, [Console LogAutoSyncDisabled, Respond 200])"
    using assms by (simp add: apiPostClipboard_def uc_gate gateOpen_def)
  have 3: "updateClipboard K s now wfail content ''local'' aw =
            (case updateClipboard K (s\<lparr>autoSyncEnabled := True\<rparr>) now wfail content ''local'' aw of
               (s', r, effs) \<Rightarrow> (s'\<lparr>autoSyncEnabled := False\<rparr>, r, effs))" for content wfail aw
    by (subst s) (simp only: local_passes_switch)
  have 4: "monitorTick K s now readResult =
            (case monitorTick K (s\<lparr>autoSyncEnabled := True\<rparr>) now readResult of
               (s', r, effs) \<Rightarrow> (s'\<lparr>autoSyncEnabled := False\<rparr>, r, effs))"
    using assms
    by (cases readResult) (simp_all add: monitorTick_def 3 split: prod.splits)
  from 1 2 3 4 show ?thesis by blast
qed

text \<open>On the paused server: a note from the API, and the same note from the monitor.\<close>

theorem paused_sync_exempts_only_local_witness:
  "\<not> autoSyncEnabled paused
   \<and> ''api'' \<noteq> ''local''
   \<and> updateClipboard example_config paused 5000 False (Str ''note'') ''api'' True
       = (paused, SkippedAutoSyncOff, [Console LogAutoSyncDisabled])
   \<and> updateClipboard example_config paused 5000 False (Str ''note'') ''local'' False
       = (case updateClipboard example_config (paused\<lparr>autoSyncEnabled := True\<rparr>) 5000 False
                 (Str ''note'') ''local'' False of
            (s', r, effs) \<Rightarrow> (s'\<lparr>autoSyncEnabled := False\<rparr>, r, effs))"
  using paused_sync_exempts_only_local [of paused "''api''" example_config 5000 False "Str ''note''" True]
    paused_sync_exempts_only_local [of paused "''local''" example_config 5000 False "Str ''note''" False]
    paused_fields(2)
  by simp

text \<open>
  With sync paused, \<^verbatim>\<open>POST /api/clipboard\<close> answers 200 and the update is
  skipped: the server object is the same and nothing is sent.
\<close>

theorem api_update_skipped_while_paused:
  "apiPostClipboard example_config paused 5000 False (Str ''note'')
     = (paused, Some SkippedAutoSyncOff, [Console LogAutoSyncDisabled, Respond 200])"
  using paused_fields(2) by (simp add: apiPostClipboard_def uc_gate gateOpen_def)

subsection \<open>Rate limiting\<close>

text \<open>
  Claim C7, as the code has it. \<^verbatim>\<open>updateClipboard\<close> takes a content, a source
  and \<^verbatim>\<open>autoWrite\<close>, and no \<^verbatim>\<open>forced\<close> flag: every update that passes the
  auto-sync switch and the hash test while \<^verbatim>\<open>now - lastSyncTime\<close> is below
  \<^verbatim>\<open>minSyncInterval\<close> is pushed onto the queue, for every source and every value of
  \<^verbatim>\<open>autoWrite\<close>; what the \<^verbatim>\<open>clipboard-update\<close> handler does is independent of any
  property of the message other than \<^verbatim>\<open>content\<close> and \<^verbatim>\<open>autoWrite\<close>; and within
  the interval no run gets past the rate limit, whatever its arguments.
  (\<^verbatim>\<open>force-sync\<close> is no ingestion: \<open>forceSyncToDevice\<close> only sends the last
  known value to the asking device.)
\<close>

theorem no_forced_bypass:
  "(gateOpen s sourceId \<and> generateHash K content \<noteq> lastClipboardHash s
      \<and> rateLimited K s now \<longrightarrow>
      updateClipboard K s now wfail content sourceId aw =
        (s\<lparr>syncQueue := syncQueue s @ [queueEntry K now content sourceId aw],
           processing := True\<rparr>,
         Queued, if processing s then [] else [SetTimeout (minSyncInterval K)]))
   \<and> onClipboardUpdate K s now wfail socketId data
       = onClipboardUpdate K s now wfail socketId (data\<lparr>msg_others := []\<rparr>)
   \<and> (rateLimited K s now \<longrightarrow>
        fst (snd (updateClipboard K s now wfail content sourceId aw)) = Queued
      \<or> fst (snd (updateClipboard K s now wfail content sourceId aw)) = SkippedSameHash
      \<or> fst (snd (updateClipboard K s now wfail content sourceId aw)) = SkippedAutoSyncOff)"
proof -
  have 1: "gateOpen s sourceId \<and> generateHash K content \<noteq> lastClipboardHash s
      \<and> rateLimited K s now \<longrightarrow>
      updateClipboard K s now wfail content sourceId aw =
        (s\<lparr>syncQueue := syncQueue s @ [queueEntry K now content sourceId aw],
           processing := True\<rparr>,
         Queued, if processing s then [] else [SetTimeout (minSyncInterval K)])"
    by (simp add: uc_queue)
  have 2: "onClipboardUpdate K s now wfail socketId data
       = onClipboardUpdate K s now wfail socketId (data\<lparr>msg_others := []\<rparr>)"
    by (simp add: onClipboardUpdate_def cong: jsval.case_cong)
  have 3: "fst (snd (updateClipboard K s now wfail content sourceId aw)) = Queued
      \<or> fst (snd (updateClipboard K s now wfail content sourceId aw)) = SkippedSameHash
      \<or> fst (snd (updateClipboard K s now wfail content sourceId aw)) = SkippedAutoSyncOff"
    if "rateLimited K s now"
    using uc_rateLimited(4) [OF _ that, of wfail content sourceId aw] by (metis prod.collapse)
  from 1 2 3 show ?thesis by blast
qed

text \<open>D3's update ten milliseconds after the hello is queued.\<close>

theorem no_forced_bypass_witness:
  "gateOpen after_hello ''D3''
   \<and> generateHash example_config (Str ''urgent'') \<noteq> lastClipboardHash after_hello
   \<and> rateLimited example_config after_hello 1010
   \<and> updateClipboard example_config after_hello 1010 False (Str ''urgent'') ''D3'' True
       = (after_hello\<lparr>syncQueue := [queueEntry example_config 1010 (Str ''urgent'') ''D3'' True],
                       processing := True\<rparr>,
          Queued, [SetTimeout 50])"
proof -
  have g: "gateOpen after_hello ''D3''"
    by (simp add: gateOpen_def after_hello_fields)
  have h: "generateHash example_config (Str ''urgent'') \<noteq> lastClipboardHash after_hello"
    by (simp add: after_hello_fields generateHash_def example_config_def enhanced_config_def
        tag_digest_def)
  have l: "rateLimited example_config after_hello 1010"
    by (simp add: rateLimited_def after_hello_fields example_config_def enhanced_config_def)
  from no_forced_bypass [of after_hello "''D3''" example_config "Str ''urgent''" 1010 False True]
    g h l
  show ?thesis
    by (simp add: after_hello_queue example_config_def enhanced_config_def)
qed

text \<open>
  The same update sent with the property \<^verbatim>\<open>forced: true\<close>: it is queued all the
  same.
\<close>

theorem forced_flag_is_queued:
  "onClipboardUpdate example_config after_hello 1010 False ''D3''
     \<lparr>msg_content = Str ''urgent'', msg_autoWrite = None, msg_others = [(''forced'', ''true'')]\<rparr>
   = Inr (after_hello\<lparr>syncQueue := [queueEntry example_config 1010 (Str ''urgent'') ''D3'' True],
                       processing := True\<rparr>,
          Queued, [Console (LogUpdateFrom ''D3'' ''urgent''), SetTimeout 50])"
proof -
  have g: "gateOpen after_hello ''D3''"
    by (simp add: gateOpen_def after_hello_fields)
  have h: "generateHash example_config (Str ''urgent'') \<noteq> lastClipboardHash after_hello"
    by (simp add: after_hello_fields generateHash_def example_config_def enhanced_config_def
        tag_digest_def)
  have l: "rateLimited example_config after_hello 1010"
    by (simp add: rateLimited_def after_hello_fields example_config_def enhanced_config_def)
  from uc_queue [OF g h l, of False True]
  show ?thesis
    by (simp add: onClipboardUpdate_def after_hello_queue example_config_def enhanced_config_def)
qed

subsection \<open>A failing clipboard write\<close>

lemma broadcast_emitted_console:
  "consoleLines (broadcast u src devs) = []"
  by (induction u src devs rule: broadcast.induct) simp_all

lemma addToHistory_consoleLines: "consoleLines (snd (addToHistory K s now content)) = []"
  using addToHistory_effects [of K s now content] by auto

lemma terminal_suspends:
  assumes "reachesFilter K s now content sourceId" "\<not> isContentFiltered K content"
    "aw" "sourceId \<noteq> ''local''"
  shows "updateClipboardTerminal K s now content sourceId aw =
           (bookkeeping K s now content,
            Suspended \<lparr>p_content = content, p_sourceId = sourceId, p_now = now,
                       p_hash = generateHash K content\<rparr>,
            [])"
  using assms
  by (auto simp: updateClipboardTerminal_def reachesFilter_def gateOpen_def rateLimited_def
      inConflictWindow_def bookkeeping_def Let_def)

lemma terminalTryCatch_facts:
  "emitted (terminalTryCatch K env c) = []"
  "updatesSent (terminalTryCatch K env c) = []"
  "osWrites (terminalTryCatch K env c) = (if primaryFails env then [] else [c])"
  "primaryFails env \<Longrightarrow> LogTerminalWarn \<in> set (consoleLines (terminalTryCatch K env c))"
  "primaryFails env \<Longrightarrow>
     LogWriteFailed \<in> set (consoleLines (terminalTryCatch K env c)) \<longleftrightarrow> \<not> headless K"
  "primaryFails env \<Longrightarrow>
     FallbackFileWrite c \<in> set (terminalTryCatch K env c)
       \<longleftrightarrow> \<not> methodIsFile env \<and> \<not> fallbackFails env"
  by (auto simp: terminalTryCatch_def terminalClipboardWrite_def Let_def emitted_append
      updatesSent_append osWrites_append consoleLines_append)

lemma addToHistory_totalSyncs:
  "totalSyncs (fst (addToHistory K s now content)) = totalSyncs s"
  by (simp add: addToHistory_def Let_def)

lemma resumeAfterWrite_eq:
  "resumeAfterWrite K s now env p =
     ((fst (addToHistory K s now (p_content p)))\<lparr>totalSyncs := Suc (totalSyncs s)\<rparr>,
      terminalTryCatch K env (orEmpty (p_content p)) @
      snd (addToHistory K s now (p_content p)) @
      broadcast
        \<lparr>u_content = p_content p, u_from = p_sourceId p, u_timestamp = p_now p,
         u_hash = p_hash p, u_autoWrite = True, u_force = False\<rparr>
        (p_sourceId p) (connectedDevices s) @
      (if \<not> headless K
       then [Console (LogSynced (getAutoSyncDeviceCount s) (length (orEmpty (p_content p))))]
       else []))"
  by (simp add: resumeAfterWrite_def Let_def case_prod_beta addToHistory_devices
      addToHistory_totalSyncs getAutoSyncDeviceCount_def)

text \<open>
  Claim C8, as the code has it. A write that fails is caught by the
  \<^verbatim>\<open>try\<close>/\<^verbatim>\<open>catch\<close> inside \<^verbatim>\<open>updateClipboard\<close> and changes nothing else. With
  \<^verbatim>\<open>terminalOnly\<close> false, compare the run in which \<^verbatim>\<open>clipboardy.writeSync\<close> throws
  with the run in which it succeeds: the resulting server object, the path taken
  and all socket emissions are the same, so an accepted update is recorded to
  the history and broadcast to the fan-out targets as if the write had worked;
  the failing run writes nothing, and the failure is printed exactly when the
  server does not run headless. With \<^verbatim>\<open>terminalOnly\<close> true an accepted update that
  is due a write suspends at the \<^verbatim>\<open>await\<close>; when the write has failed, the rest
  of the function leaves the same server object and the same socket emissions as
  after a write that worked, records the update and broadcasts it to the fan-out
  targets. There \<^verbatim>\<open>TerminalClipboard.write\<close> has printed its own warning, headless
  or not, and the \<^verbatim>\<open>catch\<close> block adds its line exactly when the server does not
  run headless.
\<close>

theorem write_failure_is_contained:
  assumes "updateClipboard K s now True content sourceId aw = (s1, r1, e1)"
    and "updateClipboard K s now False content sourceId aw = (s2, r2, e2)"
  shows "s1 = s2 \<and> r1 = r2 \<and> emitted e1 = emitted e2 \<and> osWrites e1 = []
       \<and> (r1 = Synced \<longrightarrow>
             clipboardHistory s1 =
               clipboardHistory (fst (addToHistory K (bookkeeping K s now content) now content))
           \<and> updatesSent e1 =
               map (\<lambda>(d, dev). (Socket d, updatePayload K now content sourceId))
                 (filter (\<lambda>(d, dev). d \<noteq> sourceId \<and> autoSync dev) (connectedDevices s)))
       \<and> (r1 = Synced \<and> aw \<and> sourceId \<noteq> ''local'' \<longrightarrow>
             osWrites e2 = [orEmpty content]
           \<and> (LogWriteFailed \<in> set (consoleLines e1) \<longleftrightarrow> \<not> headless K)
           \<and> LogTerminalWarn \<notin> set (consoleLines e1))
       \<and> (reachesFilter K s now content sourceId \<and> \<not> isContentFiltered K content
            \<and> aw \<and> sourceId \<noteq> ''local'' \<longrightarrow>
             updateClipboardTerminal K s now content sourceId aw =
               (bookkeeping K s now content,
                Suspended \<lparr>p_content = content, p_sourceId = sourceId, p_now = now,
                           p_hash = generateHash K content\<rparr>,
                []))
       \<and> (primaryFails env \<longrightarrow>
             fst (resumeAfterWrite K t later env p)
               = fst (resumeAfterWrite K t later (env\<lparr>primaryFails := False\<rparr>) p)
           \<and> emitted (snd (resumeAfterWrite K t later env p))
               = emitted (snd (resumeAfterWrite K t later (env\<lparr>primaryFails := False\<rparr>) p))
           \<and> osWrites (snd (resumeAfterWrite K t later env p)) = []
           \<and> clipboardHistory (fst (resumeAfterWrite K t later env p))
               = clipboardHistory (fst (addToHistory K t later (p_content p)))
           \<and> updatesSent (snd (resumeAfterWrite K t later env p)) =
               map (\<lambda>(d, dev). (Socket d,
                      \<lparr>u_content = p_content p, u_from = p_sourceId p, u_timestamp = p_now p,
                       u_hash = p_hash p, u_autoWrite = True, u_force = False\<rparr>))
                 (filter (\<lambda>(d, dev). d \<noteq> p_sourceId p \<and> autoSync dev) (connectedDevices t))
           \<and> LogTerminalWarn \<in> set (consoleLines (snd (resumeAfterWrite K t later env p)))
           \<and> (LogWriteFailed \<in> set (consoleLines (snd (resumeAfterWrite K t later env p)))
                \<longleftrightarrow> \<not> headless K))"
proof -
  have sync: "s1 = s2 \<and> r1 = r2 \<and> emitted e1 = emitted e2 \<and> osWrites e1 = []
       \<and> (r1 = Synced \<longrightarrow>
             clipboardHistory s1 =
               clipboardHistory (fst (addToHistory K (bookkeeping K s now content) now content))
           \<and> updatesSent e1 =
               map (\<lambda>(d, dev). (Socket d, updatePayload K now content sourceId))
                 (filter (\<lambda>(d, dev). d \<noteq> sourceId \<and> autoSync dev) (connectedDevices s)))
       \<and> (r1 = Synced \<and> aw \<and> sourceId \<noteq> ''local'' \<longrightarrow>
             osWrites e2 = [orEmpty content]
           \<and> (LogWriteFailed \<in> set (consoleLines e1) \<longleftrightarrow> \<not> headless K)
           \<and> LogTerminalWarn \<notin> set (consoleLines e1))"
  proof (cases "r1 = Synced")
    case False
    with assms(1) have n: "osWrites e1 = []" using uc_not_synced by blast
    from assms False have "s1 = s2 \<and> r1 = r2 \<and> emitted e1 = emitted e2"
      by (cases rule: uc_paths [of s sourceId K now True content aw];
          cases rule: uc_paths [of s sourceId K now False content aw])
         (auto simp: reachesFilter_def)
    with False n show ?thesis by simp
  next
    case True
    with assms(1) have rf: "reachesFilter K s now content sourceId"
      "\<not> isContentFiltered K content"
      using uc_synced_iff by blast+
    note a = uc_synced [OF rf, of True aw] and b = uc_synced [OF rf, of False aw]
    from assms a b have 1: "s1 = s2 \<and> r1 = r2 \<and> emitted e1 = emitted e2 \<and> osWrites e1 = []"
      by (auto simp: emitted_append osWrites_append writeSystemClipboard_def
          addToHistory_osWrites broadcast_osWrites)
    from assms(1) True have 2: "clipboardHistory s1 =
               clipboardHistory (fst (addToHistory K (bookkeeping K s now content) now content))"
      using uc_synced_state [of K s now True content sourceId aw s1 e1] by simp
    from assms(1) True have 3: "updatesSent e1 =
               map (\<lambda>(d, dev). (Socket d, updatePayload K now content sourceId))
                 (filter (\<lambda>(d, dev). d \<noteq> sourceId \<and> autoSync dev) (connectedDevices s))"
      using uc_synced_updatesSent by blast
    have 4: "osWrites e2 = [orEmpty content]
           \<and> (LogWriteFailed \<in> set (consoleLines e1) \<longleftrightarrow> \<not> headless K)
           \<and> LogTerminalWarn \<notin> set (consoleLines e1)"
      if "aw \<and> sourceId \<noteq> ''local''"
      using that assms a b
      by (auto simp: consoleLines_append osWrites_append writeSystemClipboard_def
          addToHistory_osWrites broadcast_osWrites addToHistory_consoleLines
          broadcast_emitted_console)
    from True 1 2 3 4 show ?thesis by blast
  qed
  have susp: "reachesFilter K s now content sourceId \<and> \<not> isContentFiltered K content
            \<and> aw \<and> sourceId \<noteq> ''local'' \<longrightarrow>
             updateClipboardTerminal K s now content sourceId aw =
               (bookkeeping K s now content,
                Suspended \<lparr>p_content = content, p_sourceId = sourceId, p_now = now,
                           p_hash = generateHash K content\<rparr>,
                [])"
    using terminal_suspends by blast
  have terminal: "fst (resumeAfterWrite K t later env p)
               = fst (resumeAfterWrite K t later (env\<lparr>primaryFails := False\<rparr>) p)
           \<and> emitted (snd (resumeAfterWrite K t later env p))
               = emitted (snd (resumeAfterWrite K t later (env\<lparr>primaryFails := False\<rparr>) p))
           \<and> osWrites (snd (resumeAfterWrite K t later env p)) = []
           \<and> clipboardHistory (fst (resumeAfterWrite K t later env p))
               = clipboardHistory (fst (addToHistory K t later (p_content p)))
           \<and> updatesSent (snd (resumeAfterWrite K t later env p)) =
               map (\<lambda>(d, dev). (Socket d,
                      \<lparr>u_content = p_content p, u_from = p_sourceId p, u_timestamp = p_now p,
                       u_hash = p_hash p, u_autoWrite = True, u_force = False\<rparr>))
                 (filter (\<lambda>(d, dev). d \<noteq> p_sourceId p \<and> autoSync dev) (connectedDevices t))
           \<and> LogTerminalWarn \<in> set (consoleLines (snd (resumeAfterWrite K t later env p)))
           \<and> (LogWriteFailed \<in> set (consoleLines (snd (resumeAfterWrite K t later env p)))
                \<longleftrightarrow> \<not> headless K)"
    if f: "primaryFails env"
    using terminalTryCatch_facts(4,5) [OF f, of K "orEmpty (p_content p)"] f
    by (simp add: resumeAfterWrite_eq emitted_append osWrites_append updatesSent_append
        consoleLines_append terminalTryCatch_facts(1,2,3) addToHistory_osWrites
        addToHistory_updatesSent addToHistory_consoleLines broadcast_osWrites
        broadcast_updatesSent broadcast_emitted_console)
  from sync susp terminal show ?thesis by blast
qed


lemma hello_reachesFilter_headless:
  "reachesFilter headless_config three_devices 1000 (Str ''hello'') ''D1''"
  "\<not> isContentFiltered headless_config (Str ''hello'')"
  by (simp_all add: headless_config_def example_defs regex_defs Let_def reachesFilter_def
      gateOpen_def rateLimited_def inConflictWindow_def generateHash_def)

lemma hello_suspended_state:
  "hello_suspended = bookkeeping headless_config three_devices 1000 (Str ''hello'')"
  "connectedDevices hello_suspended = connectedDevices three_devices"
  by (simp_all add: hello_suspended_def terminal_suspends [OF hello_reachesFilter_headless]
      bookkeeping_def)

text \<open>
  D1's hello with a failing write: same state, D3 still gets it, a line is
  printed. And on a headless server in terminal-only mode: D3 still gets it, and
  the terminal's warning is the only trace of the failure.
\<close>

theorem write_failure_is_contained_witness:
  "fst (snd (updateClipboard example_config three_devices 1000 True (Str ''hello'') ''D1'' True))
     = Synced
   \<and> fst (updateClipboard example_config three_devices 1000 True (Str ''hello'') ''D1'' True)
       = after_hello
   \<and> updatesSent (snd (snd (updateClipboard example_config three_devices 1000 True
                               (Str ''hello'') ''D1'' True)))
       = [(Socket ''D3'', updatePayload example_config 1000 (Str ''hello'') ''D1'')]
   \<and> LogWriteFailed \<in> set (consoleLines (snd (snd (updateClipboard example_config three_devices
                               1000 True (Str ''hello'') ''D1'' True))))
   \<and> primaryFails failing_terminal
   \<and> updatesSent (snd (resumeAfterWrite headless_config hello_suspended 1001 failing_terminal
                          hello_pending))
       = [(Socket ''D3'', updatePayload headless_config 1000 (Str ''hello'') ''D1'')]
   \<and> LogTerminalWarn \<in> set (consoleLines (snd (resumeAfterWrite headless_config hello_suspended
                                 1001 failing_terminal hello_pending)))
   \<and> LogWriteFailed \<notin> set (consoleLines (snd (resumeAfterWrite headless_config hello_suspended
                                 1001 failing_terminal hello_pending)))"
proof -
  let ?K = example_config and ?H = headless_config
  let ?bad = "updateClipboard ?K three_devices 1000 True (Str ''hello'') ''D1'' True"
  let ?good = "updateClipboard ?K three_devices 1000 False (Str ''hello'') ''D1'' True"
  let ?hbad = "updateClipboard ?H three_devices 1000 True (Str ''hello'') ''D1'' True"
  let ?hgood = "updateClipboard ?H three_devices 1000 False (Str ''hello'') ''D1'' True"
  have e1: "?bad = (fst ?bad, fst (snd ?bad), snd (snd ?bad))" by simp
  have e2: "?good = (fst ?good, fst (snd ?good), snd (snd ?good))" by simp
  have e3: "?hbad = (fst ?hbad, fst (snd ?hbad), snd (snd ?hbad))" by simp
  have e4: "?hgood = (fst ?hgood, fst (snd ?hgood), snd (snd ?hgood))" by simp
  have hl: "\<not> headless ?K" "headless ?H"
    by (simp_all add: example_config_def headless_config_def enhanced_config_def)
  have pf: "primaryFails failing_terminal" by (simp add: failing_terminal_def)
  have f: "map (\<lambda>(d, dev). (Socket d, updatePayload ?K 1000 (Str ''hello'') ''D1''))
             (filter (\<lambda>(d, dev). d \<noteq> ''D1'' \<and> autoSync dev) (connectedDevices three_devices))
           = [(Socket ''D3'', updatePayload ?K 1000 (Str ''hello'') ''D1'')]"
    by (simp add: three_devices_def registerDevice_def plainInfo_def new_server_def Let_def)
  have g: "map (\<lambda>(d, dev). (Socket d,
                  \<lparr>u_content = p_content hello_pending, u_from = p_sourceId hello_pending,
                   u_timestamp = p_now hello_pending, u_hash = p_hash hello_pending,
                   u_autoWrite = True, u_force = False\<rparr>))
             (filter (\<lambda>(d, dev). d \<noteq> p_sourceId hello_pending \<and> autoSync dev)
                (connectedDevices hello_suspended))
           = [(Socket ''D3'', updatePayload ?H 1000 (Str ''hello'') ''D1'')]"
    by (simp add: hello_suspended_state(2) hello_pending_def updatePayload_def generateHash_def
        headless_config_def enhanced_config_def tag_digest_def three_devices_def
        registerDevice_def plainInfo_def new_server_def Let_def)
  from write_failure_is_contained [OF e1 e2] hello_synced hl(1) f
  have a: "fst (snd ?bad) = Synced \<and> fst ?bad = after_hello
       \<and> updatesSent (snd (snd ?bad))
           = [(Socket ''D3'', updatePayload ?K 1000 (Str ''hello'') ''D1'')]
       \<and> LogWriteFailed \<in> set (consoleLines (snd (snd ?bad)))"
    by (simp add: after_hello_def)
  from write_failure_is_contained [OF e3 e4, of failing_terminal hello_suspended 1001
      hello_pending] pf hl(2) g
  have b: "updatesSent (snd (resumeAfterWrite ?H hello_suspended 1001 failing_terminal
                          hello_pending))
       = [(Socket ''D3'', updatePayload ?H 1000 (Str ''hello'') ''D1'')]
   \<and> LogTerminalWarn \<in> set (consoleLines (snd (resumeAfterWrite ?H hello_suspended
                                 1001 failing_terminal hello_pending)))
   \<and> LogWriteFailed \<notin> set (consoleLines (snd (resumeAfterWrite ?H hello_suspended
                                 1001 failing_terminal hello_pending)))"
    by simp
  from a b pf show ?thesis by blast
qed

text \<open>
  The same on a headless server that is not in terminal-only mode (the daemon,
  say, which has no terminal): the update is accepted, the write fails, and the
  run prints nothing at all.
\<close>

theorem headless_write_failure_is_silent:
  "fst (snd (updateClipboard headless_config three_devices 1000 True (Str ''hello'') ''D1'' True))
     = Synced
   \<and> osWrites (snd (snd (updateClipboard headless_config three_devices 1000 True
                           (Str ''hello'') ''D1'' True))) = []
   \<and> consoleLines (snd (snd (updateClipboard headless_config three_devices 1000 True
                               (Str ''hello'') ''D1'' True))) = []"
proof -
  have h: "headless headless_config"
    by (simp add: headless_config_def enhanced_config_def)
  show ?thesis
    by (simp add: uc_synced [OF hello_reachesFilter_headless] consoleLines_append osWrites_append
        writeSystemClipboard_def addToHistory_osWrites broadcast_osWrites
        addToHistory_consoleLines broadcast_emitted_console h)
qed

subsection \<open>Empty and missing content\<close>








lemma secret_reachesFilter:
  "reachesFilter example_config after_hello 5000 (Str ''my api_key: xyz123'') ''D1''"
  by (simp add: reachesFilter_def gateOpen_def rateLimited_def inConflictWindow_def
      after_hello_fields generateHash_def example_config_def enhanced_config_def tag_digest_def)

lemma secret_run:
  "updateClipboard example_config after_hello 5000 False (Str ''my api_key: xyz123'') ''D1'' True
     = (bookkeeping example_config after_hello 5000 (Str ''my api_key: xyz123''), Blocked,
        [Console LogSensitive, Console LogBlocked])"
  using secret_filtered
  by (simp add: uc_blocked [OF secret_reachesFilter secret_filtered])
     (simp add: example_config_def enhanced_config_def)

lemma after_secret_fields:
  "lastClipboard after_secret = Str ''my api_key: xyz123''"
  "lastClipboardHash after_secret = ''#my api_key: xyz123''"
  "clipboardHistory after_secret = clipboardHistory after_hello"
  unfolding after_secret_def secret_run
  by (simp_all add: bookkeeping_def generateHash_def example_config_def enhanced_config_def
      tag_digest_def)

subsection \<open>What a registering device is sent\<close>

text \<open>
  Claim C10. When a device registers and \<^verbatim>\<open>lastClipboard\<close> is non-empty, exactly
  one \<^verbatim>\<open>clipboard-update\<close> is emitted, to the registering socket, carrying
  \<^verbatim>\<open>lastClipboard\<close> and \<^verbatim>\<open>lastClipboardHash\<close> with \<^verbatim>\<open>from = 'server'\<close> and
  \<^verbatim>\<open>autoWrite = true\<close>, whatever the device's registration data (its \<^verbatim>\<open>autoSync\<close>
  flag included); when it is empty, none is emitted. \<^verbatim>\<open>lastClipboard\<close> is the
  content of the last update that got as far as the filter, blocked or not: so
  after a non-empty update that the filter blocked, a registering device is sent
  that blocked content.
\<close>

theorem register_sends_last_clipboard:
  "(truthy (lastClipboard s) \<longrightarrow>
      updatesSent (snd (registerDevice s now socketId info)) =
        [(Socket socketId,
          \<lparr>u_content = lastClipboard s, u_from = ''server'', u_timestamp = now,
           u_hash = lastClipboardHash s, u_autoWrite = True, u_force = False\<rparr>)])
   \<and> (\<not> truthy (lastClipboard s) \<longrightarrow>
        updatesSent (snd (registerDevice s now socketId info)) = [])
   \<and> (reachesFilter K s t content sourceId \<longrightarrow>
        lastClipboard (fst (updateClipboard K s t wfail content sourceId aw)) = content
      \<and> lastClipboardHash (fst (updateClipboard K s t wfail content sourceId aw))
          = generateHash K content)
   \<and> (reachesFilter K s t content sourceId \<and> isContentFiltered K content \<and> truthy content \<longrightarrow>
        fst (snd (updateClipboard K s t wfail content sourceId aw)) = Blocked
      \<and> updatesSent
          (snd (registerDevice (fst (updateClipboard K s t wfail content sourceId aw))
                  now socketId info)) =
          [(Socket socketId,
            \<lparr>u_content = content, u_from = ''server'', u_timestamp = now,
             u_hash = generateHash K content, u_autoWrite = True, u_force = False\<rparr>)])"
proof -
  have 1: "truthy (lastClipboard s) \<longrightarrow>
      updatesSent (snd (registerDevice s now socketId info)) =
        [(Socket socketId,
          \<lparr>u_content = lastClipboard s, u_from = ''server'', u_timestamp = now,
           u_hash = lastClipboardHash s, u_autoWrite = True, u_force = False\<rparr>)]" for s
    by (simp add: registerDevice_def Let_def)
  have 2: "\<not> truthy (lastClipboard s) \<longrightarrow>
        updatesSent (snd (registerDevice s now socketId info)) = []"
    by (simp add: registerDevice_def Let_def)
  have 3: "lastClipboard (fst (updateClipboard K s t wfail content sourceId aw)) = content
      \<and> lastClipboardHash (fst (updateClipboard K s t wfail content sourceId aw))
          = generateHash K content"
    if rf: "reachesFilter K s t content sourceId"
  proof (cases "isContentFiltered K content")
    case True
    with rf show ?thesis by (simp add: uc_blocked bookkeeping_def)
  next
    case False
    with rf have "fst (snd (updateClipboard K s t wfail content sourceId aw)) = Synced"
      by (simp add: uc_synced)
    then show ?thesis
      using uc_bookkept [of K s t wfail content sourceId aw] by (metis prod.collapse)
  qed
  have 4: "fst (snd (updateClipboard K s t wfail content sourceId aw)) = Blocked
      \<and> updatesSent
          (snd (registerDevice (fst (updateClipboard K s t wfail content sourceId aw))
                  now socketId info)) =
          [(Socket socketId,
            \<lparr>u_content = content, u_from = ''server'', u_timestamp = now,
             u_hash = generateHash K content, u_autoWrite = True, u_force = False\<rparr>)]"
    if "reachesFilter K s t content sourceId \<and> isContentFiltered K content \<and> truthy content"
    using that 3 1 [of "fst (updateClipboard K s t wfail content sourceId aw)"]
    by (simp add: uc_blocked)
  from 1 2 3 4 show ?thesis by blast
qed

text \<open>D4 registers, with auto-sync off, after D1's blocked string.\<close>

theorem register_sends_last_clipboard_witness:
  "reachesFilter example_config after_hello 5000 (Str ''my api_key: xyz123'') ''D1''
   \<and> isContentFiltered example_config (Str ''my api_key: xyz123'')
   \<and> truthy (Str ''my api_key: xyz123'')
   \<and> updatesSent (snd (registerDevice after_secret 6000 ''D4''
                          (plainInfo\<lparr>info_autoSync := Some False\<rparr>))) =
       [(Socket ''D4'',
         \<lparr>u_content = Str ''my api_key: xyz123'', u_from = ''server'', u_timestamp = 6000,
          u_hash = generateHash example_config (Str ''my api_key: xyz123''),
          u_autoWrite = True, u_force = False\<rparr>)]"
proof -
  have t: "truthy (Str ''my api_key: xyz123'')" by simp
  from register_sends_last_clipboard [of after_hello 6000 "''D4''"
      "plainInfo\<lparr>info_autoSync := Some False\<rparr>" example_config 5000
      "Str ''my api_key: xyz123''" "''D1''" False True]
    secret_reachesFilter secret_filtered t
  show ?thesis unfolding after_secret_def by blast
qed

subsection \<open>Sensitive content\<close>

text \<open>
  Within \<^verbatim>\<open>updateClipboard\<close> the filter does its work: a run on filtered content
  sends nothing over any socket, writes nothing and leaves the history alone;
  a run that reaches the filter with content it lets through has the content at
  the front of the history and broadcasts it.
\<close>

lemma updateClipboard_respects_filter:
  assumes "updateClipboard K s now wfail content sourceId aw = (s', r, effs)"
  shows "isContentFiltered K content \<longrightarrow>
           emitted effs = [] \<and> osWrites effs = [] \<and> clipboardHistory s' = clipboardHistory s"
    and "\<not> isContentFiltered K content \<and> reachesFilter K s now content sourceId
           \<and> 0 < maxHistorySize K \<longrightarrow>
           r = Synced \<and> clipboardHistory s' \<noteq> []
           \<and> hi_hash (hd (clipboardHistory s')) = generateHash K content
           \<and> updatesSent effs =
               map (\<lambda>(d, dev). (Socket d, updatePayload K now content sourceId))
                 (filter (\<lambda>(d, dev). d \<noteq> sourceId \<and> autoSync dev) (connectedDevices s))"
proof -
  show "isContentFiltered K content \<longrightarrow>
           emitted effs = [] \<and> osWrites effs = [] \<and> clipboardHistory s' = clipboardHistory s"
    using assms
    by (cases rule: uc_paths [of s sourceId K now wfail content aw])
       (auto simp: bookkeeping_def emitted_append osWrites_append console_emitted
          console_osWrites)
  show "\<not> isContentFiltered K content \<and> reachesFilter K s now content sourceId
           \<and> 0 < maxHistorySize K \<longrightarrow>
           r = Synced \<and> clipboardHistory s' \<noteq> []
           \<and> hi_hash (hd (clipboardHistory s')) = generateHash K content
           \<and> updatesSent effs =
               map (\<lambda>(d, dev). (Socket d, updatePayload K now content sourceId))
                 (filter (\<lambda>(d, dev). d \<noteq> sourceId \<and> autoSync dev) (connectedDevices s))"
  proof (intro impI)
    assume a: "\<not> isContentFiltered K content \<and> reachesFilter K s now content sourceId
           \<and> 0 < maxHistorySize K"
    with assms have r: "r = Synced" using uc_synced_iff by blast
    with assms have st: "clipboardHistory s' =
        clipboardHistory (fst (addToHistory K (bookkeeping K s now content) now content))"
      using uc_synced_state [of K s now wfail content sourceId aw s' effs] by simp
    from a have "truthy content" using not_filtered_truthy by blast
    with a have "clipboardHistory (fst (addToHistory K (bookkeeping K s now content) now content))
           \<noteq> []
         \<and> hi_hash (hd (clipboardHistory
              (fst (addToHistory K (bookkeeping K s now content) now content))))
             = generateHash K content"
      using addToHistory_front_hash by blast
    with r st assms show "r = Synced \<and> clipboardHistory s' \<noteq> []
           \<and> hi_hash (hd (clipboardHistory s')) = generateHash K content
           \<and> updatesSent effs =
               map (\<lambda>(d, dev). (Socket d, updatePayload K now content sourceId))
                 (filter (\<lambda>(d, dev). d \<noteq> sourceId \<and> autoSync dev) (connectedDevices s))"
      using uc_synced_updatesSent by auto
  qed
qed

text \<open>
  Claim C1 asks that content matching a sensitive pattern is never delivered to
  a device, by any operation. The run below evaluates the code on the string of
  the claim: the filter blocks it, nothing is sent by \<^verbatim>\<open>updateClipboard\<close> and the
  history is untouched; but the string has become \<^verbatim>\<open>lastClipboard\<close>, and the next
  \<^verbatim>\<open>register-device\<close> and the next \<^verbatim>\<open>force-sync\<close> deliver it.
\<close>

theorem filtered_content_reaches_devices:
  "isContentFiltered example_config (Str ''my api_key: xyz123'')
   \<and> fst (snd (updateClipboard example_config after_hello 5000 False
                 (Str ''my api_key: xyz123'') ''D1'' True)) = Blocked
   \<and> emitted (snd (snd (updateClipboard example_config after_hello 5000 False
                          (Str ''my api_key: xyz123'') ''D1'' True))) = []
   \<and> clipboardHistory after_secret = clipboardHistory after_hello
   \<and> updatesSent (snd (registerDevice after_secret 6000 ''D4'' plainInfo)) =
       [(Socket ''D4'',
         \<lparr>u_content = Str ''my api_key: xyz123'', u_from = ''server'', u_timestamp = 6000,
          u_hash = ''#my api_key: xyz123'', u_autoWrite = True, u_force = False\<rparr>)]
   \<and> updatesSent (forceSyncToDevice after_secret 6000 ''D3'') =
       [(Socket ''D3'',
         \<lparr>u_content = Str ''my api_key: xyz123'', u_from = ''server'', u_timestamp = 6000,
          u_hash = ''#my api_key: xyz123'', u_autoWrite = True, u_force = True\<rparr>)]"
  using secret_filtered
  by (simp add: secret_run after_secret_fields registerDevice_def forceSyncToDevice_def Let_def)

end
